theory Spec2Isabelle
  imports Main
begin

section \<open>Strings and JSON documents\<close>

text \<open>
  JavaScript numbers are modelled as \<open>int\<close>: the custom resource carries integers
  (replicas, ports, milliseconds), and the decimal rendering below is the one that template
  literals, \<open>toString\<close> and \<open>JSON.stringify\<close> give to an integer.
\<close>

text \<open>The digit for a value below 16.\<close>

definition digit_char :: "nat \<Rightarrow> char" where
  "digit_char d = ''0123456789abcdef'' ! d"

fun show_nat :: "nat \<Rightarrow> string" where
  "show_nat n = (if n < 10 then [digit_char n] else show_nat (n div 10) @ [digit_char (n mod 10)])"

declare show_nat.simps [simp del]

definition show_int :: "int \<Rightarrow> string" where
  "show_int i = (if i < 0 then ''-'' @ show_nat (nat (- i)) else show_nat (nat i))"

text \<open>A JSON value; an object is the list of its properties, one entry for each key.\<close>

datatype json =
    JNull
  | JBool bool
  | JNum int
  | JStr string
  | JArr "json list"
  | JObj "(string \<times> json) list"

text \<open>The escapes of \<open>JSON.stringify\<close> for one code unit of a string.\<close>

definition quote_char :: "char \<Rightarrow> string" where
  "quote_char c =
     (if c = CHR 0x22 then [CHR 0x5C, CHR 0x22]
      else if c = CHR 0x5C then [CHR 0x5C, CHR 0x5C]
      else if c = CHR 0x08 then [CHR 0x5C, CHR ''b'']
      else if c = CHR 0x0C then [CHR 0x5C, CHR ''f'']
      else if c = CHR 0x0A then [CHR 0x5C, CHR ''n'']
      else if c = CHR 0x0D then [CHR 0x5C, CHR ''r'']
      else if c = CHR 0x09 then [CHR 0x5C, CHR ''t'']
      else if of_char c < (32::nat)
        then [CHR 0x5C, CHR ''u'', CHR ''0'', CHR ''0'',
              digit_char (of_char c div 16), digit_char (of_char c mod 16)]
      else [c])"

definition quote :: "string \<Rightarrow> string" where
  "quote s = [CHR 0x22] @ concat (map quote_char s) @ [CHR 0x22]"

fun join :: "string \<Rightarrow> string list \<Rightarrow> string" where
  "join sep [] = []"
| "join sep [x] = x"
| "join sep (x # y # ys) = x @ sep @ join sep (y # ys)"

definition newline_indent :: "nat \<Rightarrow> string" where
  "newline_indent k = CHR 0x0A # replicate k CHR '' ''"

text \<open>
  \<open>JSON.stringify(value, null, 2)\<close>: members on their own lines, two more spaces of
  indentation per nesting level, \<open>[]\<close> and \<open>{}\<close> for the empty containers. The first
  argument is the indentation of the enclosing level.
\<close>

fun stringify_at :: "nat \<Rightarrow> json \<Rightarrow> string" where
  "stringify_at k JNull = ''null''"
| "stringify_at k (JBool b) = (if b then ''true'' else ''false'')"
| "stringify_at k (JNum i) = show_int i"
| "stringify_at k (JStr s) = quote s"
| "stringify_at k (JArr xs) =
     (if xs = [] then ''[]''
      else ''['' @ newline_indent (k + 2)
           @ join ('','' @ newline_indent (k + 2)) (map (stringify_at (k + 2)) xs)
           @ newline_indent k @ '']'')"
| "stringify_at k (JObj kvs) =
     (if kvs = [] then ''{}''
      else ''{'' @ newline_indent (k + 2)
           @ join ('','' @ newline_indent (k + 2))
               (map (\<lambda>kv. quote (fst kv) @ '': '' @ stringify_at (k + 2) (snd kv)) kvs)
           @ newline_indent k @ ''}'')"

definition JSON_stringify :: "json \<Rightarrow> string" where
  "JSON_stringify v = stringify_at 0 v"

section \<open>The operator: custom resource and owned objects\<close>

text \<open>
  The interfaces of \<open>src/operator/index.ts\<close> and the fields of the Kubernetes objects the
  operator builds. Optional fields are options; \<open>metadata.name!\<close> is asserted present by
  the source and is a plain string here.
\<close>

record ResourceQuantities =
  cpu :: "string option"
  memory :: "string option"

record ResourceRequirements =
  requests :: "ResourceQuantities option"
  limits :: "ResourceQuantities option"

record PeeringServerSpec =
  spec_replicas :: int
  spec_pingInterval :: int
  spec_port :: "int option"
  spec_image :: "string option"
  spec_resources :: "ResourceRequirements option"

record PeeringServerStatus =
  status_replicas :: int
  status_readyReplicas :: int
  phase :: string
  lastUpdated :: nat

record OwnerReference =
  owner_apiVersion :: string
  owner_kind :: string
  owner_name :: string
  owner_uid :: "string option"
  controller :: bool
  blockOwnerDeletion :: bool

record V1ObjectMeta =
  meta_name :: string
  meta_namespace :: "string option"
  meta_uid :: "string option"
  labels :: "(string \<times> string) list"
  ownerReferences :: "OwnerReference list"

record PeeringServer =
  ps_apiVersion :: string
  ps_kind :: string
  ps_metadata :: V1ObjectMeta
  ps_spec :: PeeringServerSpec
  ps_status :: "PeeringServerStatus option"

record Peer =
  host :: string
  port :: int

record V1ConfigMap =
  cm_apiVersion :: string
  cm_kind :: string
  cm_metadata :: V1ObjectMeta
  cm_data :: "(string \<times> string) list"

record V1ServicePort =
  sp_name :: string
  sp_port :: int
  sp_targetPort :: int
  sp_protocol :: string

record V1ServiceSpec =
  clusterIP :: "string option"
  svc_selector :: "(string \<times> string) list"
  svc_ports :: "V1ServicePort list"

record V1Service =
  svc_apiVersion :: string
  svc_kind :: string
  svc_metadata :: V1ObjectMeta
  svc_spec :: V1ServiceSpec

datatype EnvSource = EnvValue string | EnvFieldRef string

record V1Probe =
  probe_path :: string
  probe_port :: int
  initialDelaySeconds :: int
  periodSeconds :: int
  timeoutSeconds :: int
  failureThreshold :: int

record V1Container =
  c_name :: string
  c_image :: string
  imagePullPolicy :: string
  containerPort :: int
  containerPortName :: string
  containerPortProtocol :: string
  env :: "(string \<times> EnvSource) list"
  volumeMount_name :: string
  volumeMount_path :: string
  volumeMount_readOnly :: bool
  c_requests_cpu :: string
  c_requests_memory :: string
  c_limits_cpu :: string
  c_limits_memory :: string
  allowPrivilegeEscalation :: bool
  readOnlyRootFilesystem :: bool
  c_runAsNonRoot :: bool
  c_runAsUser :: int
  capabilities_drop :: "string list"
  livenessProbe :: V1Probe
  readinessProbe :: V1Probe

record V1PodSpec =
  pod_runAsNonRoot :: bool
  pod_runAsUser :: int
  fsGroup :: int
  seccompProfile :: string
  containers :: "V1Container list"
  volume_name :: string
  volume_configMap :: string

record V1StatefulSetSpec =
  serviceName :: string
  sts_replicas :: int
  matchLabels :: "(string \<times> string) list"
  template_labels :: "(string \<times> string) list"
  template_spec :: V1PodSpec

record V1StatefulSetStatus =
  observed_replicas :: "int option"
  observed_readyReplicas :: "int option"

record V1StatefulSet =
  sts_apiVersion :: string
  sts_kind :: string
  sts_metadata :: V1ObjectMeta
  sts_spec :: V1StatefulSetSpec
  sts_status :: "V1StatefulSetStatus option"

subsection \<open>JavaScript's \<open>||\<close> on optional values\<close>

text \<open>
  \<open>a || b\<close> yields \<open>b\<close> when \<open>a\<close> is undefined and also when it is falsy: the
  empty string, the number 0.
\<close>

definition str_or :: "string option \<Rightarrow> string \<Rightarrow> string" where
  "str_or a b = (case a of None \<Rightarrow> b | Some s \<Rightarrow> if s = [] then b else s)"

definition num_or :: "int option \<Rightarrow> int \<Rightarrow> int" where
  "num_or a b = (case a of None \<Rightarrow> b | Some i \<Rightarrow> if i = 0 then b else i)"

subsection \<open>generatePeerList\<close>

text \<open>
  The \<open>for\<close> loop of \<open>generatePeerList\<close>, with its counter \<open>i\<close> and the array
  \<open>peers\<close> it pushes to.
\<close>

function generatePeerList_loop ::
  "string \<Rightarrow> string \<Rightarrow> int \<Rightarrow> int \<Rightarrow> int \<Rightarrow> Peer list \<Rightarrow> Peer list" where
  "generatePeerList_loop nm ns reps p i peers =
     (if i < reps then
        (let podName = nm @ ''-'' @ show_int i;
             h = podName @ ''.'' @ nm @ ''-headless.'' @ ns @ ''.svc.cluster.local''
         in generatePeerList_loop nm ns reps p (i + 1) (peers @ [\<lparr>host = h, port = p\<rparr>]))
      else peers)"
  by pat_completeness auto
termination
  by (relation "measure (\<lambda>(nm, ns, reps, p, i, peers). nat (reps - i))") auto

declare generatePeerList_loop.simps [simp del]

definition generatePeerList :: "string \<Rightarrow> string \<Rightarrow> int \<Rightarrow> int \<Rightarrow> Peer list" where
  "generatePeerList nm ns reps p = generatePeerList_loop nm ns reps p 0 []"

subsection \<open>The three desired objects\<close>

text \<open>
  Every builder takes the operator's own namespace (\<open>this.namespace\<close>) as its first
  argument.
\<close>

definition ps_namespace :: "string \<Rightarrow> PeeringServer \<Rightarrow> string" where
  "ps_namespace opns ps = str_or (meta_namespace (ps_metadata ps)) opns"

definition ps_port :: "PeeringServer \<Rightarrow> int" where
  "ps_port ps = num_or (spec_port (ps_spec ps)) 8080"

definition owner_ref :: "PeeringServer \<Rightarrow> OwnerReference" where
  "owner_ref ps =
     \<lparr>owner_apiVersion = ps_apiVersion ps, owner_kind = ps_kind ps,
      owner_name = meta_name (ps_metadata ps), owner_uid = meta_uid (ps_metadata ps),
      controller = True, blockOwnerDeletion = True\<rparr>"

text \<open>The metadata the three builders write; they set no uid.\<close>

definition owned_meta :: "string \<Rightarrow> PeeringServer \<Rightarrow> string \<Rightarrow> V1ObjectMeta" where
  "owned_meta opns ps objname =
     \<lparr>meta_name = objname, meta_namespace = Some (ps_namespace opns ps), meta_uid = None,
      labels = [(''app'', meta_name (ps_metadata ps)), (''managed-by'', ''peering-operator'')],
      ownerReferences = [owner_ref ps]\<rparr>"

definition peer_json :: "Peer \<Rightarrow> json" where
  "peer_json pr = JObj [(''host'', JStr (host pr)), (''port'', JNum (port pr))]"

definition config_json :: "Peer list \<Rightarrow> int \<Rightarrow> json" where
  "config_json peers interval =
     JObj [(''peers'', JArr (map peer_json peers)), (''pingInterval'', JNum interval)]"

definition createConfigMap :: "string \<Rightarrow> PeeringServer \<Rightarrow> Peer list \<Rightarrow> V1ConfigMap" where
  "createConfigMap opns ps peers =
     (let nm = meta_name (ps_metadata ps);
          config = config_json peers (spec_pingInterval (ps_spec ps))
      in \<lparr>cm_apiVersion = ''v1'', cm_kind = ''ConfigMap'',
          cm_metadata = owned_meta opns ps (nm @ ''-config''),
          cm_data = [(''config.json'', JSON_stringify config)]\<rparr>)"

definition createHeadlessService :: "string \<Rightarrow> PeeringServer \<Rightarrow> V1Service" where
  "createHeadlessService opns ps =
     (let nm = meta_name (ps_metadata ps);
          p = ps_port ps
      in \<lparr>svc_apiVersion = ''v1'', svc_kind = ''Service'',
          svc_metadata = owned_meta opns ps (nm @ ''-headless''),
          svc_spec = \<lparr>clusterIP = Some ''None'',
                      svc_selector = [(''app'', nm)],
                      svc_ports = [\<lparr>sp_name = ''http'', sp_port = p, sp_targetPort = p,
                                    sp_protocol = ''TCP''\<rparr>]\<rparr>\<rparr>)"

definition createStatefulSet :: "string \<Rightarrow> PeeringServer \<Rightarrow> V1StatefulSet" where
  "createStatefulSet opns ps =
     (let nm = meta_name (ps_metadata ps);
          p = ps_port ps;
          img = str_or (spec_image (ps_spec ps)) ''peering-server:latest'';
          res = spec_resources (ps_spec ps);
          req = Option.bind res requests;
          lim = Option.bind res limits
      in \<lparr>sts_apiVersion = ''apps/v1'', sts_kind = ''StatefulSet'',
          sts_metadata = owned_meta opns ps nm,
          sts_spec =
            \<lparr>serviceName = nm @ ''-headless'',
             sts_replicas = spec_replicas (ps_spec ps),
             matchLabels = [(''app'', nm)],
             template_labels = [(''app'', nm)],
             template_spec =
               \<lparr>pod_runAsNonRoot = True, pod_runAsUser = 1001, fsGroup = 1001,
                seccompProfile = ''RuntimeDefault'',
                containers =
                  [\<lparr>c_name = ''peering-server'', c_image = img,
                    imagePullPolicy = ''IfNotPresent'',
                    containerPort = p, containerPortName = ''http'',
                    containerPortProtocol = ''TCP'',
                    env = [(''PORT'', EnvValue (show_int p)),
                           (''CONFIG_PATH'', EnvValue ''/etc/peering/config.json''),
                           (''POD_NAME'', EnvFieldRef ''metadata.name''),
                           (''POD_NAMESPACE'', EnvFieldRef ''metadata.namespace'')],
                    volumeMount_name = ''config'', volumeMount_path = ''/etc/peering'',
                    volumeMount_readOnly = True,
                    c_requests_cpu = str_or (Option.bind req cpu) ''100m'',
                    c_requests_memory = str_or (Option.bind req memory) ''128Mi'',
                    c_limits_cpu = str_or (Option.bind lim cpu) ''200m'',
                    c_limits_memory = str_or (Option.bind lim memory) ''256Mi'',
                    allowPrivilegeEscalation = False, readOnlyRootFilesystem = True,
                    c_runAsNonRoot = True, c_runAsUser = 1001,
                    capabilities_drop = [''ALL''],
                    livenessProbe =
                      \<lparr>probe_path = ''/health'', probe_port = p, initialDelaySeconds = 10,
                       periodSeconds = 10, timeoutSeconds = 5, failureThreshold = 3\<rparr>,
                    readinessProbe =
                      \<lparr>probe_path = ''/health'', probe_port = p, initialDelaySeconds = 5,
                       periodSeconds = 5, timeoutSeconds = 3, failureThreshold = 3\<rparr>\<rparr>],
                volume_name = ''config'', volume_configMap = nm @ ''-config''\<rparr>\<rparr>,
          sts_status = None\<rparr>)"

section \<open>The Resource Store\<close>

text \<open>
  The API server is outside the repository. It is modelled as tables keyed by
  (namespace, name) with the usual verbs: a read or a replace of an absent object and a
  create of a present one fail with 404 and 409, and a replace of a StatefulSet keeps the
  status the cluster has recorded for it. Any call can also fail for a reason of the
  environment's: \<open>faults\<close> holds the outcome the environment has decided for each of
  the next calls (\<open>None\<close>: the call is served; \<open>Some e\<close>: it fails with \<open>e\<close>); once
  the list is used up every call is served. The store keeps the objects as they are
  written: fields that a real server fills in (resource version, timestamps) are not part
  of the model.
\<close>

datatype api_error =
    HttpError nat
  | TransportError
  | RequiredError

text \<open>\<open>error.response?.statusCode\<close>\<close>

fun statusCode :: "api_error \<Rightarrow> nat option" where
  "statusCode (HttpError c) = Some c"
| "statusCode TransportError = None"
| "statusCode RequiredError = None"

datatype api_call =
    ReadConfigMap string string
  | ReplaceConfigMap string string
  | CreateConfigMap string string
  | ReadService string string
  | ReplaceService string string
  | CreateService string string
  | ReadStatefulSet string string
  | ReplaceStatefulSet string string
  | CreateStatefulSet string string
  | PatchStatus string string string
  | ListPeeringServers string
  | OpenWatch string
  | Sleep nat

datatype log_entry =
    Reconciling string string
  | UpdatedConfigMap string string
  | CreatedConfigMap string string
  | UpdatedService string string
  | CreatedService string string
  | UpdatedStatefulSet string string
  | CreatedStatefulSet string string
  | SuccessfullyReconciled string string
  | ErrorReconciling string string api_error
  | UpdatedStatus string string
  | ErrorUpdatingStatus string string api_error
  | EventReceived string string string
  | PeeringServerDeleted string string
  | SyncingExisting
  | FoundExisting nat
  | InitialSyncComplete
  | ErrorSyncing api_error
  | OperatorStarting string
  | WatchPath string
  | StartingWatch
  | WatchError api_error
  | WatchCrashed api_error
  | RestartingWatch

record world =
  configMaps :: "string \<times> string \<rightharpoonup> V1ConfigMap"
  services :: "string \<times> string \<rightharpoonup> V1Service"
  statefulSets :: "string \<times> string \<rightharpoonup> V1StatefulSet"
  peeringServers :: "((string \<times> string) \<times> PeeringServer) list"
  faults :: "api_error option list"
  clock :: nat
  calls :: "api_call list"
  logs :: "log_entry list"

text \<open>
  Code that changes a state and may throw: a function from the state to the outcome
  (\<open>Inl\<close> the error thrown) and the state reached.
\<close>

type_synonym ('s, 'e, 'a) prog = "'s \<Rightarrow> ('e + 'a) \<times> 's"

definition return :: "'a \<Rightarrow> ('s, 'e, 'a) prog" where
  "return x w = (Inr x, w)"

definition throw :: "'e \<Rightarrow> ('s, 'e, 'a) prog" where
  "throw e w = (Inl e, w)"

text \<open>\<open>m; k\<close>: the continuation runs only when \<open>m\<close> did not throw.\<close>

definition and_then :: "('s, 'e, 'a) prog \<Rightarrow> ('a \<Rightarrow> ('s, 'e, 'b) prog) \<Rightarrow> ('s, 'e, 'b) prog" where
  "and_then m k w = (case m w of (Inl e, w') \<Rightarrow> (Inl e, w') | (Inr x, w') \<Rightarrow> k x w')"

text \<open>\<open>try { m } catch (error) { h error }\<close>\<close>

definition try_catch :: "('s, 'e, 'a) prog \<Rightarrow> ('e \<Rightarrow> ('s, 'e, 'a) prog) \<Rightarrow> ('s, 'e, 'a) prog" where
  "try_catch m h w = (case m w of (Inl e, w') \<Rightarrow> h e w' | (Inr x, w') \<Rightarrow> (Inr x, w'))"

type_synonym 'a action = "(world, api_error, 'a) prog"

definition logger :: "log_entry \<Rightarrow> unit action" where
  "logger l w = (Inr (), w\<lparr>logs := logs w @ [l]\<rparr>)"

text \<open>
  One request to the API server: it is recorded, and the environment's next decision is
  taken from \<open>faults\<close>.
\<close>

definition request :: "api_call \<Rightarrow> unit action" where
  "request c w =
     (let w' = w\<lparr>calls := calls w @ [c]\<rparr>
      in case faults w' of
           [] \<Rightarrow> (Inr (), w')
         | None # fs \<Rightarrow> (Inr (), w'\<lparr>faults := fs\<rparr>)
         | Some e # fs \<Rightarrow> (Inl e, w'\<lparr>faults := fs\<rparr>))"

definition readNamespacedConfigMap :: "string \<Rightarrow> string \<Rightarrow> V1ConfigMap action" where
  "readNamespacedConfigMap nm ns =
     and_then (request (ReadConfigMap ns nm)) (\<lambda>_ w.
       case configMaps w (ns, nm) of
         None \<Rightarrow> (Inl (HttpError 404), w)
       | Some v \<Rightarrow> (Inr v, w))"

definition replaceNamespacedConfigMap :: "string \<Rightarrow> string \<Rightarrow> V1ConfigMap \<Rightarrow> unit action" where
  "replaceNamespacedConfigMap nm ns body =
     and_then (request (ReplaceConfigMap ns nm)) (\<lambda>_ w.
       case configMaps w (ns, nm) of
         None \<Rightarrow> (Inl (HttpError 404), w)
       | Some v \<Rightarrow> (Inr (), w\<lparr>configMaps := (configMaps w)((ns, nm) \<mapsto> body)\<rparr>))"

definition createNamespacedConfigMap :: "string \<Rightarrow> V1ConfigMap \<Rightarrow> unit action" where
  "createNamespacedConfigMap ns body =
     (let nm = meta_name (cm_metadata body)
      in and_then (request (CreateConfigMap ns nm)) (\<lambda>_ w.
           case configMaps w (ns, nm) of
             None \<Rightarrow> (Inr (), w\<lparr>configMaps := (configMaps w)((ns, nm) \<mapsto> body)\<rparr>)
           | Some v \<Rightarrow> (Inl (HttpError 409), w)))"

definition readNamespacedService :: "string \<Rightarrow> string \<Rightarrow> V1Service action" where
  "readNamespacedService nm ns =
     and_then (request (ReadService ns nm)) (\<lambda>_ w.
       case services w (ns, nm) of
         None \<Rightarrow> (Inl (HttpError 404), w)
       | Some v \<Rightarrow> (Inr v, w))"

text \<open>
  The store writes the Service it is sent, \<open>clusterIP\<close> included: it is the operator, not
  the store, that the model holds responsible for keeping that field.
\<close>

definition replaceNamespacedService :: "string \<Rightarrow> string \<Rightarrow> V1Service \<Rightarrow> unit action" where
  "replaceNamespacedService nm ns body =
     and_then (request (ReplaceService ns nm)) (\<lambda>_ w.
       case services w (ns, nm) of
         None \<Rightarrow> (Inl (HttpError 404), w)
       | Some v \<Rightarrow> (Inr (), w\<lparr>services := (services w)((ns, nm) \<mapsto> body)\<rparr>))"

definition createNamespacedService :: "string \<Rightarrow> V1Service \<Rightarrow> unit action" where
  "createNamespacedService ns body =
     (let nm = meta_name (svc_metadata body)
      in and_then (request (CreateService ns nm)) (\<lambda>_ w.
           case services w (ns, nm) of
             None \<Rightarrow> (Inr (), w\<lparr>services := (services w)((ns, nm) \<mapsto> body)\<rparr>)
           | Some v \<Rightarrow> (Inl (HttpError 409), w)))"

definition readNamespacedStatefulSet :: "string \<Rightarrow> string \<Rightarrow> V1StatefulSet action" where
  "readNamespacedStatefulSet nm ns =
     and_then (request (ReadStatefulSet ns nm)) (\<lambda>_ w.
       case statefulSets w (ns, nm) of
         None \<Rightarrow> (Inl (HttpError 404), w)
       | Some v \<Rightarrow> (Inr v, w))"

definition replaceNamespacedStatefulSet ::
  "string \<Rightarrow> string \<Rightarrow> V1StatefulSet \<Rightarrow> unit action" where
  "replaceNamespacedStatefulSet nm ns body =
     and_then (request (ReplaceStatefulSet ns nm)) (\<lambda>_ w.
       case statefulSets w (ns, nm) of
         None \<Rightarrow> (Inl (HttpError 404), w)
       | Some v \<Rightarrow>
           (Inr (), w\<lparr>statefulSets :=
                        (statefulSets w)((ns, nm) \<mapsto> body\<lparr>sts_status := sts_status v\<rparr>)\<rparr>))"

definition createNamespacedStatefulSet :: "string \<Rightarrow> V1StatefulSet \<Rightarrow> unit action" where
  "createNamespacedStatefulSet ns body =
     (let nm = meta_name (sts_metadata body)
      in and_then (request (CreateStatefulSet ns nm)) (\<lambda>_ w.
           case statefulSets w (ns, nm) of
             None \<Rightarrow> (Inr (), w\<lparr>statefulSets := (statefulSets w)((ns, nm) \<mapsto> body)\<rparr>)
           | Some v \<Rightarrow> (Inl (HttpError 409), w)))"

text \<open>
  The custom resources are kept as a list of entries, one per key, because the operator
  lists them. \<open>put\<close> overwrites the entry of a key in place.
\<close>

fun put :: "'k \<Rightarrow> 'v \<Rightarrow> ('k \<times> 'v) list \<Rightarrow> ('k \<times> 'v) list" where
  "put k v [] = [(k, v)]"
| "put k v ((k', v') # kvs) = (if k' = k then (k, v) # kvs else (k', v') # put k v kvs)"

text \<open>
  The merge patch of the status subresource of a \<open>peeringservers\<close> object of
  \<open>luxor.io/v1\<close>. The operator's patch carries all four status fields, so the merged
  status is the patch.
\<close>

definition patchNamespacedCustomObjectStatus ::
  "string \<Rightarrow> string \<Rightarrow> PeeringServerStatus \<Rightarrow> unit action" where
  "patchNamespacedCustomObjectStatus ns nm st =
     and_then (request (PatchStatus ns nm (phase st))) (\<lambda>_ w.
       case map_of (peeringServers w) (ns, nm) of
         None \<Rightarrow> (Inl (HttpError 404), w)
       | Some ps \<Rightarrow>
           (Inr (), w\<lparr>peeringServers :=
                        put (ns, nm) (ps\<lparr>ps_status := Some st\<rparr>) (peeringServers w)\<rparr>))"

text \<open>\<open>new Date()\<close>\<close>

definition now :: "nat action" where
  "now w = (Inr (clock w), w)"

section \<open>The Reconciler\<close>

text \<open>
  \<open>configMap.metadata!.namespace!\<close>: the builders always set the namespace; the client
  refuses a call whose namespace is missing.
\<close>

definition createOrUpdateConfigMap :: "V1ConfigMap \<Rightarrow> unit action" where
  "createOrUpdateConfigMap configMap =
     (case meta_namespace (cm_metadata configMap) of
        None \<Rightarrow> throw RequiredError
      | Some ns \<Rightarrow>
          (let nm = meta_name (cm_metadata configMap)
           in try_catch
                (and_then (readNamespacedConfigMap nm ns) (\<lambda>_.
                 and_then (replaceNamespacedConfigMap nm ns configMap) (\<lambda>_.
                 logger (UpdatedConfigMap ns nm))))
                (\<lambda>error.
                   if statusCode error = Some 404 then
                     and_then (createNamespacedConfigMap ns configMap) (\<lambda>_.
                     logger (CreatedConfigMap ns nm))
                   else throw error)))"

text \<open>
  \<open>service.spec!.clusterIP = existing.body.spec!.clusterIP\<close> changes the desired object
  itself, so the create in the \<open>catch\<close> branch after a failed replace sends the changed
  object.
\<close>

definition create_missing_service :: "string \<Rightarrow> string \<Rightarrow> V1Service \<Rightarrow> api_error \<Rightarrow> unit action" where
  "create_missing_service ns nm service error =
     (if statusCode error = Some 404 then
        and_then (createNamespacedService ns service) (\<lambda>_.
        logger (CreatedService ns nm))
      else throw error)"

definition createOrUpdateService :: "V1Service \<Rightarrow> unit action" where
  "createOrUpdateService service =
     (case meta_namespace (svc_metadata service) of
        None \<Rightarrow> throw RequiredError
      | Some ns \<Rightarrow>
          (let nm = meta_name (svc_metadata service)
           in (\<lambda>w. case readNamespacedService nm ns w of
                 (Inl error, w1) \<Rightarrow> create_missing_service ns nm service error w1
               | (Inr existing, w1) \<Rightarrow>
                   (let service' =
                      service\<lparr>svc_spec :=
                        (svc_spec service)\<lparr>clusterIP := clusterIP (svc_spec existing)\<rparr>\<rparr>
                    in try_catch
                         (and_then (replaceNamespacedService nm ns service') (\<lambda>_.
                          logger (UpdatedService ns nm)))
                         (create_missing_service ns nm service') w1))))"

definition createOrUpdateStatefulSet :: "V1StatefulSet \<Rightarrow> unit action" where
  "createOrUpdateStatefulSet statefulSet =
     (case meta_namespace (sts_metadata statefulSet) of
        None \<Rightarrow> throw RequiredError
      | Some ns \<Rightarrow>
          (let nm = meta_name (sts_metadata statefulSet)
           in try_catch
                (and_then (readNamespacedStatefulSet nm ns) (\<lambda>_.
                 and_then (replaceNamespacedStatefulSet nm ns statefulSet) (\<lambda>_.
                 logger (UpdatedStatefulSet ns nm))))
                (\<lambda>error.
                   if statusCode error = Some 404 then
                     and_then (createNamespacedStatefulSet ns statefulSet) (\<lambda>_.
                     logger (CreatedStatefulSet ns nm))
                   else throw error)))"

text \<open>
  \<open>updateStatus\<close> reads the StatefulSet, patches the status of the PeeringServer and
  catches every error of the two calls.
\<close>

definition updateStatus :: "string \<Rightarrow> PeeringServer \<Rightarrow> string \<Rightarrow> unit action" where
  "updateStatus opns ps ph =
     (let nm = meta_name (ps_metadata ps);
          ns = ps_namespace opns ps
      in try_catch
           (and_then (readNamespacedStatefulSet nm ns) (\<lambda>statefulSet.
            let reps = num_or (Option.bind (sts_status statefulSet) observed_replicas) 0;
                ready = num_or (Option.bind (sts_status statefulSet) observed_readyReplicas) 0
            in and_then now (\<lambda>t.
               and_then (patchNamespacedCustomObjectStatus ns nm
                           \<lparr>status_replicas = reps, status_readyReplicas = ready,
                            phase = ph, lastUpdated = t\<rparr>) (\<lambda>_.
               logger (UpdatedStatus ns nm)))))
           (\<lambda>error. logger (ErrorUpdatingStatus ns nm error)))"

text \<open>The \<open>try\<close> block of \<open>reconcile\<close>: the three owned objects in order.\<close>

definition converge :: "string \<Rightarrow> PeeringServer \<Rightarrow> unit action" where
  "converge opns ps =
     (let nm = meta_name (ps_metadata ps);
          ns = ps_namespace opns ps;
          p = ps_port ps;
          reps = spec_replicas (ps_spec ps);
          peers = generatePeerList nm ns reps p;
          configMap = createConfigMap opns ps peers
      in and_then (createOrUpdateConfigMap configMap) (\<lambda>_.
         and_then (createOrUpdateService (createHeadlessService opns ps)) (\<lambda>_.
         createOrUpdateStatefulSet (createStatefulSet opns ps))))"

definition reconcile :: "string \<Rightarrow> PeeringServer \<Rightarrow> unit action" where
  "reconcile opns ps =
     (let nm = meta_name (ps_metadata ps);
          ns = ps_namespace opns ps
      in and_then (logger (Reconciling ns nm)) (\<lambda>_.
         try_catch
           (and_then (converge opns ps) (\<lambda>_.
            and_then (updateStatus opns ps ''Running'') (\<lambda>_.
            logger (SuccessfullyReconciled ns nm))))
           (\<lambda>error.
              and_then (logger (ErrorReconciling ns nm error)) (\<lambda>_.
              updateStatus opns ps ''Failed''))))"


section \<open>The Watch Engine\<close>

definition listNamespacedCustomObject :: "string \<Rightarrow> PeeringServer list action" where
  "listNamespacedCustomObject ns =
     and_then (request (ListPeeringServers ns)) (\<lambda>_ w.
       (Inr (map snd (filter (\<lambda>kv. fst (fst kv) = ns) (peeringServers w))), w))"

text \<open>\<open>for (const item of items) await this.reconcile(item)\<close>\<close>

fun reconcile_each :: "string \<Rightarrow> PeeringServer list \<Rightarrow> unit action" where
  "reconcile_each opns [] = return ()"
| "reconcile_each opns (item # items) =
     and_then (reconcile opns item) (\<lambda>_. reconcile_each opns items)"

definition syncExistingResources :: "string \<Rightarrow> unit action" where
  "syncExistingResources opns =
     and_then (logger SyncingExisting) (\<lambda>_.
     try_catch
       (and_then (listNamespacedCustomObject opns) (\<lambda>items.
        and_then (logger (FoundExisting (length items))) (\<lambda>_.
        and_then (reconcile_each opns items) (\<lambda>_.
        logger InitialSyncComplete))))
       (\<lambda>error. logger (ErrorSyncing error)))"

definition handleEvent :: "string \<Rightarrow> string \<Rightarrow> PeeringServer \<Rightarrow> unit action" where
  "handleEvent opns type obj =
     (let nm = meta_name (ps_metadata obj);
          ns = ps_namespace opns obj
      in and_then (logger (EventReceived type ns nm)) (\<lambda>_.
         if type = ''ADDED'' \<or> type = ''MODIFIED'' then reconcile opns obj
         else if type = ''DELETED'' then logger (PeeringServerDeleted ns nm)
         else return ()))"

text \<open>
  What the environment makes of one call of \<open>this.watch.watch\<close>: the events the stream
  hands to the event callback, the error (if any) it hands to the second callback when the
  stream ends, and whether the awaited call returns or throws. The event callback starts
  \<open>handleEvent\<close> and does not await it, so in the program the reconciles of successive
  events can overlap, and can still be running when \<open>watch\<close> has returned. Here each
  handler runs to its end before the next event is delivered, and all of them before
  \<open>watch\<close> returns: the model covers the runs in which every handler has ended when
  the next event arrives.
\<close>

datatype watch_end = WatchReturned | WatchThrew api_error

record watch_session =
  delivered :: "(string \<times> PeeringServer) list"
  stream_error :: "api_error option"
  ended :: watch_end

fun deliver :: "string \<Rightarrow> (string \<times> PeeringServer) list \<Rightarrow> unit action" where
  "deliver opns [] = return ()"
| "deliver opns (ev # evs) =
     and_then (handleEvent opns (fst ev) (snd ev)) (\<lambda>_. deliver opns evs)"

definition watch :: "string \<Rightarrow> string \<Rightarrow> watch_session \<Rightarrow> unit action" where
  "watch opns path session =
     and_then (\<lambda>w. (Inr (), w\<lparr>calls := calls w @ [OpenWatch path]\<rparr>)) (\<lambda>_.
     and_then (deliver opns (delivered session)) (\<lambda>_.
     and_then (case stream_error session of
                 None \<Rightarrow> return ()
               | Some err \<Rightarrow> logger (WatchError err)) (\<lambda>_.
     case ended session of
       WatchReturned \<Rightarrow> return ()
     | WatchThrew e \<Rightarrow> throw e)))"

text \<open>\<open>await new Promise((resolve) => setTimeout(resolve, ms))\<close>\<close>

definition sleep :: "nat \<Rightarrow> unit action" where
  "sleep ms w = (Inr (), w\<lparr>calls := calls w @ [Sleep ms]\<rparr>)"

text \<open>
  The \<open>while (true)\<close> loop of \<open>start\<close> never ends. The list of sessions is what the
  environment does to the successive calls of \<open>watch\<close>; the function gives the state
  reached when that list is used up.
\<close>

fun watch_loop :: "string \<Rightarrow> string \<Rightarrow> watch_session list \<Rightarrow> unit action" where
  "watch_loop opns path [] = return ()"
| "watch_loop opns path (session # rest) =
     and_then
       (try_catch (watch opns path session) (\<lambda>error.
          and_then (logger (WatchCrashed error)) (\<lambda>_.
          and_then (logger RestartingWatch) (\<lambda>_.
          sleep 5000))))
       (\<lambda>_. watch_loop opns path rest)"

definition start :: "string \<Rightarrow> watch_session list \<Rightarrow> unit action" where
  "start opns sessions =
     and_then (logger (OperatorStarting opns)) (\<lambda>_.
     and_then (syncExistingResources opns) (\<lambda>_.
     let path = ''/apis/luxor.io/v1/namespaces/'' @ opns @ ''/peeringservers''
     in and_then (logger (WatchPath path)) (\<lambda>_.
        and_then (logger StartingWatch) (\<lambda>_.
        watch_loop opns path sessions))))"

section \<open>The managed server\<close>

subsection \<open>JavaScript values read from the config file\<close>

text \<open>
  \<open>JSON.parse\<close> returns any JSON value, and the type \<open>ServerConfig\<close> it is assigned to
  is erased when the program runs, so the server's config is a JSON value. A property that
  is not there is \<open>undefined\<close>: \<open>None\<close> below. Reading a property of \<open>null\<close> or of
  \<open>undefined\<close> throws a TypeError. Only the properties the server reads (\<open>peers\<close>,
  \<open>pingInterval\<close>, \<open>length\<close>, \<open>host\<close>, \<open>port\<close>) are looked up, and among them
  strings and arrays have \<open>length\<close>.
\<close>

datatype js_error = SyntaxError | TypeError | IOError

fun get_prop :: "json \<Rightarrow> string \<Rightarrow> js_error + json option" where
  "get_prop JNull k = Inl TypeError"
| "get_prop (JBool b) k = Inr None"
| "get_prop (JNum i) k = Inr None"
| "get_prop (JStr s) k = Inr (if k = ''length'' then Some (JNum (int (length s))) else None)"
| "get_prop (JArr xs) k = Inr (if k = ''length'' then Some (JNum (int (length xs))) else None)"
| "get_prop (JObj kvs) k = Inr (map_of kvs k)"

fun member :: "json option \<Rightarrow> string \<Rightarrow> js_error + json option" where
  "member None k = Inl TypeError"
| "member (Some v) k = get_prop v k"

text \<open>\<open>v.a.b\<close>\<close>

definition member2 :: "json \<Rightarrow> string \<Rightarrow> string \<Rightarrow> js_error + json option" where
  "member2 v a b = (case get_prop v a of Inl e \<Rightarrow> Inl e | Inr x \<Rightarrow> member x b)"

text \<open>The string a template literal makes of a value.\<close>

fun to_string :: "json \<Rightarrow> string" where
  "to_string JNull = ''null''"
| "to_string (JBool b) = (if b then ''true'' else ''false'')"
| "to_string (JNum i) = show_int i"
| "to_string (JStr s) = s"
| "to_string (JArr xs) = join '','' (map (\<lambda>x. if x = JNull then [] else to_string x) xs)"
| "to_string (JObj kvs) = ''[object Object]''"

definition template :: "json option \<Rightarrow> string" where
  "template v = (case v of None \<Rightarrow> ''undefined'' | Some x \<Rightarrow> to_string x)"

definition is_space :: "char \<Rightarrow> bool" where
  "is_space c = (c \<in> set [CHR 0x20, CHR 0x09, CHR 0x0A, CHR 0x0B, CHR 0x0C, CHR 0x0D])"

definition trim :: "string \<Rightarrow> string" where
  "trim s = rev (dropWhile is_space (rev (dropWhile is_space s)))"

subsection \<open>State of the server and of what it runs on\<close>

datatype config_file = Missing | Unreadable | Contents string

datatype ping_outcome = Response json | Failure "string option"

datatype server_log =
    ConfigLoaded string
  | PeersUpdated "json option" "json option"
  | PingIntervalMs "json option"
  | ConfigNotFound string
  | ErrorLoadingConfig js_error
  | WatchingConfig string
  | ConfigChanged string
  | NoPeersConfigured
  | PingingPeers "json option"
  | Pinged string string
  | PeerNotReachable string
  | PeerTimedOut string
  | ErrorPinging string
  | PingIntervalSet "json option"
  | ShuttingDown
  | ServerClosed

record ping_request =
  req_id :: nat
  req_address :: string
  req_url :: string
  req_timeout :: nat
  req_user_agent :: string

text \<open>
  The fields of the class (\<open>config\<close>, \<open>pingIntervalId\<close>, \<open>configWatcher\<close>, the constants
  of the constructor) and the part of the runtime and of the file system the server acts
  on: \<open>timers\<close> are the interval timers that are set (handle and delay argument),
  \<open>inflight\<close> the HTTP requests sent and not yet settled (with the timeout in
  milliseconds they were given), \<open>rejections\<close> the errors of rejected promises that
  nothing handles, \<open>on_disk\<close> what is at \<open>configPath\<close>, \<open>exit_status\<close> the status
  the process has ended with, \<open>None\<close> while it runs.
\<close>

record server =
  listen_port :: int
  serverName :: string
  configPath :: string
  config :: json
  pingIntervalId :: "nat option"
  configWatcher :: bool
  timers :: "(nat \<times> json option) list"
  next_handle :: nat
  inflight :: "ping_request list"
  rejections :: "js_error list"
  server_logs :: "server_log list"
  on_disk :: config_file
  exit_status :: "nat option"

type_synonym 'a js = "(server, js_error, 'a) prog"

definition log_line :: "server_log \<Rightarrow> unit js" where
  "log_line l s = (Inr (), s\<lparr>server_logs := server_logs s @ [l]\<rparr>)"

text \<open>An expression that may throw, evaluated in a statement.\<close>

definition evaluate :: "js_error + 'a \<Rightarrow> 'a js" where
  "evaluate r s = (case r of Inl e \<Rightarrow> (Inl e, s) | Inr x \<Rightarrow> (Inr x, s))"

subsection \<open>Pinging\<close>

text \<open>\<open>${peer.host}:${peer.port}\<close>\<close>

definition peer_address :: "json \<Rightarrow> js_error + string" where
  "peer_address peer =
     (case get_prop peer ''host'' of
        Inl e \<Rightarrow> Inl e
      | Inr h \<Rightarrow>
          (case get_prop peer ''port'' of
             Inl e \<Rightarrow> Inl e
           | Inr p \<Rightarrow> Inr (template h @ '':'' @ template p)))"

text \<open>
  \<open>pingPeer\<close> up to its \<open>await\<close>: the URL is built and the request is sent. When
  building the URL throws, the promise of \<open>pingPeer\<close> is rejected and no request is sent;
  \<open>Promise.allSettled\<close> takes rejected promises as well as fulfilled ones.
\<close>

definition pingPeer :: "json \<Rightarrow> server \<Rightarrow> server" where
  "pingPeer peer s =
     (case peer_address peer of
        Inl e \<Rightarrow> s
      | Inr addr \<Rightarrow>
          s\<lparr>inflight := inflight s @ [\<lparr>req_id = next_handle s, req_address = addr,
                                         req_url = ''http://'' @ addr @ ''/ping'',
                                         req_timeout = 5000,
                                         req_user_agent = ''PeeringServer/'' @ serverName s\<rparr>],
            next_handle := next_handle s + 1\<rparr>)"

text \<open>
  The rest of \<open>pingPeer\<close>, run when the request settles: the log line for the outcome.
  \<open>response.data.trim()\<close> throws inside the \<open>try\<close> when the data is not a string, and
  the \<open>catch\<close> finds no \<open>code\<close> on that error.
\<close>

definition pingPeer_settled :: "ping_request \<Rightarrow> ping_outcome \<Rightarrow> server_log" where
  "pingPeer_settled r out =
     (case out of
        Response (JStr d) \<Rightarrow> Pinged (req_address r) (trim d)
      | Response _ \<Rightarrow> ErrorPinging (req_address r)
      | Failure code \<Rightarrow>
          if code = Some ''ECONNREFUSED'' then PeerNotReachable (req_address r)
          else if code = Some ''ETIMEDOUT'' then PeerTimedOut (req_address r)
          else ErrorPinging (req_address r))"

definition settle :: "nat \<Rightarrow> ping_outcome \<Rightarrow> server \<Rightarrow> server" where
  "settle rid out s =
     (case find (\<lambda>r. req_id r = rid) (inflight s) of
        None \<Rightarrow> s
      | Some r \<Rightarrow>
          s\<lparr>inflight := filter (\<lambda>r. req_id r \<noteq> rid) (inflight s),
            server_logs := server_logs s @ [pingPeer_settled r out]\<rparr>)"

text \<open>
  \<open>pingAllPeers\<close> up to its \<open>await\<close>, after which it does nothing more. It is an
  async function: what it throws rejects its promise. Its callers neither await nor handle
  that promise and the program installs no handler for unhandled rejections, so the
  runtime ends the process with status 1 once the code that is running has returned: the
  callers below go on to their end, and no event is handled after that (\<open>server_step\<close>).
\<close>

definition pingAllPeers_body :: "unit js" where
  "pingAllPeers_body =
     (\<lambda>s. and_then (evaluate (member2 (config s) ''peers'' ''length'')) (\<lambda>len.
          if len = Some (JNum 0) then log_line NoPeersConfigured
          else and_then (log_line (PingingPeers len)) (\<lambda>_.
               and_then (evaluate (get_prop (config s) ''peers'')) (\<lambda>peers.
               case peers of
                 Some (JArr ps) \<Rightarrow> (\<lambda>s'. (Inr (), fold pingPeer ps s'))
               | _ \<Rightarrow> throw TypeError))) s)"

definition pingAllPeers :: "server \<Rightarrow> server" where
  "pingAllPeers s =
     (case pingAllPeers_body s of
        (Inl e, s') \<Rightarrow> s'\<lparr>rejections := rejections s' @ [e], exit_status := Some 1\<rparr>
      | (Inr u, s') \<Rightarrow> s')"

definition clearInterval :: "nat \<Rightarrow> server \<Rightarrow> server" where
  "clearInterval t s = s\<lparr>timers := filter (\<lambda>tm. fst tm \<noteq> t) (timers s)\<rparr>"

definition setInterval :: "json option \<Rightarrow> nat js" where
  "setInterval delay s =
     (Inr (next_handle s),
      s\<lparr>timers := timers s @ [(next_handle s, delay)], next_handle := next_handle s + 1\<rparr>)"

definition startPinging :: "unit js" where
  "startPinging =
     (\<lambda>s. and_then (\<lambda>s0. (Inr (), case pingIntervalId s0 of
                                     Some t \<Rightarrow> clearInterval t s0
                                   | None \<Rightarrow> s0)) (\<lambda>_.
          and_then (\<lambda>s1. (Inr (), pingAllPeers s1)) (\<lambda>_ s2.
          and_then (evaluate (get_prop (config s2) ''pingInterval'')) (\<lambda>interval.
          and_then (setInterval interval) (\<lambda>t.
          and_then (\<lambda>s3. (Inr (), s3\<lparr>pingIntervalId := Some t\<rparr>)) (\<lambda>_.
          log_line (PingIntervalSet interval)))) s2)) s)"

text \<open>The callback of the interval timer; a timer that has been cleared does not fire.\<close>

definition timer_fired :: "nat \<Rightarrow> server \<Rightarrow> server" where
  "timer_fired t s = (if t \<in> fst ` set (timers s) then pingAllPeers s else s)"

subsection \<open>Loading the configuration\<close>

text \<open>
  \<open>JSON.parse\<close> is a parameter of the model: \<open>parse text = None\<close> when it throws.
\<close>

definition loadConfig :: "(string \<Rightarrow> json option) \<Rightarrow> unit js" where
  "loadConfig parse =
     try_catch
       (\<lambda>s. case on_disk s of
              Missing \<Rightarrow> log_line (ConfigNotFound (configPath s)) s
            | Unreadable \<Rightarrow> (Inl IOError, s)
            | Contents configData \<Rightarrow>
                (case parse configData of
                   None \<Rightarrow> (Inl SyntaxError, s)
                 | Some newConfig \<Rightarrow>
                     and_then (evaluate (member2 (config s) ''peers'' ''length'')) (\<lambda>oldPeerCount.
                     and_then (evaluate (member2 newConfig ''peers'' ''length'')) (\<lambda>newPeerCount.
                     and_then (\<lambda>s1. (Inr (), s1\<lparr>config := newConfig\<rparr>)) (\<lambda>_.
                     and_then (log_line (ConfigLoaded (configPath s))) (\<lambda>_.
                     and_then (log_line (PeersUpdated oldPeerCount newPeerCount)) (\<lambda>_.
                     and_then (evaluate (get_prop newConfig ''pingInterval'')) (\<lambda>interval.
                     and_then (log_line (PingIntervalMs interval)) (\<lambda>_.
                     startPinging))))))) s))
       (\<lambda>error. log_line (ErrorLoadingConfig error))"

definition watchConfig :: "unit js" where
  "watchConfig =
     (\<lambda>s. and_then (log_line (WatchingConfig (configPath s))) (\<lambda>_ s1.
            (Inr (), s1\<lparr>configWatcher := True\<rparr>)) s)"

text \<open>The \<open>change\<close> handler of the file watcher; a closed watcher reports nothing.\<close>

definition config_changed :: "(string \<Rightarrow> json option) \<Rightarrow> config_file \<Rightarrow> unit js" where
  "config_changed parse f =
     (\<lambda>s. if configWatcher s then
            and_then (log_line (ConfigChanged (configPath s))) (\<lambda>_. loadConfig parse)
              (s\<lparr>on_disk := f\<rparr>)
          else (Inr (), s\<lparr>on_disk := f\<rparr>))"

text \<open>
  The constructor: the arguments \<open>port\<close> and \<open>configPath\<close>, the variables
  \<open>POD_NAME\<close> and \<open>HOSTNAME\<close> of the environment, and the state of the file system.
\<close>

definition server_name :: "string option \<Rightarrow> string option \<Rightarrow> int \<Rightarrow> string" where
  "server_name pod hostname p = str_or pod (str_or hostname (''server-'' @ show_int p))"

definition default_config :: json where
  "default_config = JObj [(''peers'', JArr []), (''pingInterval'', JNum 60000)]"

definition new_server ::
  "(string \<Rightarrow> json option) \<Rightarrow> int \<Rightarrow> string \<Rightarrow> string option \<Rightarrow> string option \<Rightarrow>
   config_file \<Rightarrow> (js_error + unit) \<times> server" where
  "new_server parse p path pod hostname f =
     and_then (loadConfig parse) (\<lambda>_. watchConfig)
       \<lparr>listen_port = p, serverName = server_name pod hostname p, configPath = path,
        config = default_config,
        pingIntervalId = None, configWatcher = False, timers = [], next_handle = 0,
        inflight = [], rejections = [], server_logs = [], on_disk = f, exit_status = None\<rparr>"

text \<open>
  The handler of SIGTERM and of SIGINT, with the callback of \<open>server.close\<close>, which
  calls \<open>process.exit(0)\<close>.
\<close>

definition on_signal :: "server \<Rightarrow> server" where
  "on_signal s =
     (let s1 = s\<lparr>server_logs := server_logs s @ [ShuttingDown]\<rparr>;
          s2 = (case pingIntervalId s1 of Some t \<Rightarrow> clearInterval t s1 | None \<Rightarrow> s1);
          s3 = (if configWatcher s2 then s2\<lparr>configWatcher := False\<rparr> else s2)
      in s3\<lparr>server_logs := server_logs s3 @ [ServerClosed], exit_status := Some 0\<rparr>)"

section \<open>What a served reconcile writes\<close>

text \<open>
  Names for the objects that \<open>reconcile\<close> sends to the store, used in the statements
  below: the peer list, the Service with the \<open>clusterIP\<close> of the Service already there,
  the StatefulSet with the status the store has for it, and the status patch.
\<close>

definition desired_peers :: "string \<Rightarrow> PeeringServer \<Rightarrow> Peer list" where
  "desired_peers opns ps =
     generatePeerList (meta_name (ps_metadata ps)) (ps_namespace opns ps)
       (spec_replicas (ps_spec ps)) (ps_port ps)"

definition written_service :: "string \<Rightarrow> PeeringServer \<Rightarrow> world \<Rightarrow> V1Service" where
  "written_service opns ps w =
     (case services w (ps_namespace opns ps, meta_name (ps_metadata ps) @ ''-headless'') of
        None \<Rightarrow> createHeadlessService opns ps
      | Some old \<Rightarrow>
          (createHeadlessService opns ps)\<lparr>svc_spec :=
             (svc_spec (createHeadlessService opns ps))\<lparr>clusterIP := clusterIP (svc_spec old)\<rparr>\<rparr>)"

definition written_statefulSet :: "string \<Rightarrow> PeeringServer \<Rightarrow> world \<Rightarrow> V1StatefulSet" where
  "written_statefulSet opns ps w =
     (case statefulSets w (ps_namespace opns ps, meta_name (ps_metadata ps)) of
        None \<Rightarrow> createStatefulSet opns ps
      | Some old \<Rightarrow> (createStatefulSet opns ps)\<lparr>sts_status := sts_status old\<rparr>)"

definition written_status :: "string \<Rightarrow> PeeringServer \<Rightarrow> string \<Rightarrow> world \<Rightarrow> PeeringServerStatus" where
  "written_status opns ps ph w =
     (let st = Option.bind (statefulSets w (ps_namespace opns ps, meta_name (ps_metadata ps)))
                 sts_status
      in \<lparr>status_replicas = num_or (Option.bind st observed_replicas) 0,
          status_readyReplicas = num_or (Option.bind st observed_readyReplicas) 0,
          phase = ph, lastUpdated = clock w\<rparr>)"

section \<open>Example inputs\<close>

definition example_ps :: PeeringServer where
  "example_ps =
     \<lparr>ps_apiVersion = ''luxor.io/v1'', ps_kind = ''PeeringServer'',
      ps_metadata = \<lparr>meta_name = ''small'', meta_namespace = Some ''default'',
                     meta_uid = Some ''uid-1'', labels = [], ownerReferences = []\<rparr>,
      ps_spec = \<lparr>spec_replicas = 3, spec_pingInterval = 60000, spec_port = Some 8080,
                 spec_image = None, spec_resources = None\<rparr>,
      ps_status = None\<rparr>"

text \<open>
  A PeeringServer outside the operator's namespace that declares its own port, and one
  that declares neither a namespace nor a port.
\<close>

definition mesh_ps :: PeeringServer where
  "mesh_ps =
     \<lparr>ps_apiVersion = ''luxor.io/v1'', ps_kind = ''PeeringServer'',
      ps_metadata = \<lparr>meta_name = ''mesh'', meta_namespace = Some ''prod'',
                     meta_uid = Some ''uid-2'', labels = [], ownerReferences = []\<rparr>,
      ps_spec = \<lparr>spec_replicas = 2, spec_pingInterval = 30000, spec_port = Some 9090,
                 spec_image = None, spec_resources = None\<rparr>,
      ps_status = None\<rparr>"

definition bare_ps :: PeeringServer where
  "bare_ps =
     \<lparr>ps_apiVersion = ''luxor.io/v1'', ps_kind = ''PeeringServer'',
      ps_metadata = \<lparr>meta_name = ''solo'', meta_namespace = None,
                     meta_uid = Some ''uid-3'', labels = [], ownerReferences = []\<rparr>,
      ps_spec = \<lparr>spec_replicas = 1, spec_pingInterval = 60000, spec_port = None,
                 spec_image = None, spec_resources = None\<rparr>,
      ps_status = None\<rparr>"

definition empty_world :: world where
  "empty_world =
     \<lparr>configMaps = Map.empty, services = Map.empty, statefulSets = Map.empty,
      peeringServers = [], faults = [], clock = 0, calls = [], logs = []\<rparr>"

definition example_world :: world where
  "example_world = empty_world\<lparr>peeringServers := [((''default'', ''small''), example_ps)]\<rparr>"

section \<open>Repeated reconciles\<close>

text \<open>
  Further calls of \<open>reconcile\<close> for the same PeeringServer, nothing but the operator
  writing to the store in between. Time passes: the list gives the clock at each call.
\<close>

fun reconcile_again :: "string \<Rightarrow> PeeringServer \<Rightarrow> nat list \<Rightarrow> world \<Rightarrow> world" where
  "reconcile_again opns ps [] w = w"
| "reconcile_again opns ps (t # ts) w =
     reconcile_again opns ps ts (snd (reconcile opns ps (w\<lparr>clock := t\<rparr>)))"

text \<open>The custom resources with the \<open>lastUpdated\<close> of their status blanked.\<close>

definition erase_lastUpdated :: "PeeringServer \<Rightarrow> PeeringServer" where
  "erase_lastUpdated p =
     p\<lparr>ps_status := map_option (\<lambda>st. st\<lparr>lastUpdated := 0\<rparr>) (ps_status p)\<rparr>"

definition statuses :: "world \<Rightarrow> ((string \<times> string) \<times> PeeringServer) list" where
  "statuses w = map (\<lambda>kv. (fst kv, erase_lastUpdated (snd kv))) (peeringServers w)"

text \<open>
  The state a served reconcile of \<open>ps\<close> leaves: the three objects are the desired ones
  (the Service with some \<open>clusterIP\<close>, the StatefulSet with some status) and the status of
  the PeeringServer, if the store has it, is the one computed from the StatefulSet.
\<close>

definition settled :: "string \<Rightarrow> PeeringServer \<Rightarrow> world \<Rightarrow> bool" where
  "settled opns ps w \<longleftrightarrow>
     faults w = []
     \<and> configMaps w (ps_namespace opns ps, meta_name (ps_metadata ps) @ ''-config'') =
         Some (createConfigMap opns ps (desired_peers opns ps))
     \<and> services w (ps_namespace opns ps, meta_name (ps_metadata ps) @ ''-headless'') =
         Some (written_service opns ps w)
     \<and> statefulSets w (ps_namespace opns ps, meta_name (ps_metadata ps)) =
         Some (written_statefulSet opns ps w)
     \<and> (case map_of (peeringServers w) (ps_namespace opns ps, meta_name (ps_metadata ps)) of
          None \<Rightarrow> True
        | Some p \<Rightarrow>
            map_option (\<lambda>st. st\<lparr>lastUpdated := 0\<rparr>) (ps_status p) =
              Some ((written_status opns ps ''Running'' w)\<lparr>lastUpdated := 0\<rparr>))"

section \<open>Sequences of reconciles\<close>

text \<open>
  Reconciles of any PeeringServers one after the other. The list \<open>faults\<close> of the first
  state decides which of all the calls made along the way fail.
\<close>

fun reconcile_all :: "string \<Rightarrow> PeeringServer list \<Rightarrow> world \<Rightarrow> world" where
  "reconcile_all opns [] w = w"
| "reconcile_all opns (ps # pss) w = reconcile_all opns pss (snd (reconcile opns ps w))"

text \<open>
  \<open>keeps R m\<close>: whatever the outcome of \<open>m\<close>, the state it leaves is related by \<open>R\<close> to
  the state it started from.
\<close>

definition keeps :: "('s \<Rightarrow> 's \<Rightarrow> bool) \<Rightarrow> ('s, 'e, 'a) prog \<Rightarrow> bool" where
  "keeps R m \<longleftrightarrow> (\<forall>w. R w (snd (m w)))"

text \<open>Every Service of the first state is in the second, with the same \<open>clusterIP\<close>.\<close>

definition clusterIPs_kept :: "world \<Rightarrow> world \<Rightarrow> bool" where
  "clusterIPs_kept w w' \<longleftrightarrow>
     (\<forall>k svc. services w k = Some svc \<longrightarrow>
        (\<exists>svc'. services w' k = Some svc'
                \<and> clusterIP (svc_spec svc') = clusterIP (svc_spec svc)))"

text \<open>\<open>served n w\<close>: the environment serves the next \<open>n\<close> calls.\<close>

definition served :: "nat \<Rightarrow> world \<Rightarrow> bool" where
  "served n w \<longleftrightarrow> list_all (\<lambda>f. f = None) (take n (faults w))"

text \<open>The phase recorded in the store for a PeeringServer, if any.\<close>

definition phase_of :: "world \<Rightarrow> string \<times> string \<Rightarrow> string option" where
  "phase_of w k = map_option phase (Option.bind (map_of (peeringServers w) k) ps_status)"

text \<open>More example inputs: specs the data model calls invalid, and states of the store.\<close>

definition zero_interval_ps :: PeeringServer where
  "zero_interval_ps = example_ps\<lparr>ps_spec := (ps_spec example_ps)\<lparr>spec_pingInterval := 0\<rparr>\<rparr>"

definition negative_replicas_ps :: PeeringServer where
  "negative_replicas_ps = example_ps\<lparr>ps_spec := (ps_spec example_ps)\<lparr>spec_replicas := - 1\<rparr>\<rparr>"

definition running_world :: world where
  "running_world =
     example_world
       \<lparr>configMaps := [(''default'', ''small-config'') \<mapsto>
            createConfigMap ''default'' example_ps (desired_peers ''default'' example_ps)],
        services := [(''default'', ''small-headless'') \<mapsto> createHeadlessService ''default'' example_ps],
        statefulSets := [(''default'', ''small'') \<mapsto>
            (createStatefulSet ''default'' example_ps)
              \<lparr>sts_status := Some \<lparr>observed_replicas = Some 3, observed_readyReplicas = Some 3\<rparr>\<rparr>],
        peeringServers := [((''default'', ''small''),
            example_ps\<lparr>ps_status := Some \<lparr>status_replicas = 3, status_readyReplicas = 3,
                                           phase = ''Running'', lastUpdated = 0\<rparr>\<rparr>)]\<rparr>"

definition conflict_world :: world where
  "conflict_world = running_world\<lparr>faults := [None, Some (HttpError 409)]\<rparr>"

definition forbidden_world :: world where
  "forbidden_world = example_world\<lparr>faults := [None, Some (HttpError 403)]\<rparr>"

section \<open>The calls of the Watch Engine\<close>

text \<open>
  The calls that the Watch Engine itself makes (listing, opening the watch, sleeping), as
  opposed to those of the reconciles it runs, and their order in the record of calls.
\<close>

fun engine_call :: "api_call \<Rightarrow> bool" where
  "engine_call (ListPeeringServers ns) = True"
| "engine_call (OpenWatch path) = True"
| "engine_call (Sleep ms) = True"
| "engine_call c = False"

definition engine_trace :: "world \<Rightarrow> api_call list" where
  "engine_trace w = filter engine_call (calls w)"

definition same_engine_trace :: "world \<Rightarrow> world \<Rightarrow> bool" where
  "same_engine_trace w w' \<longleftrightarrow> engine_trace w' = engine_trace w"

definition crashed_session :: watch_session where
  "crashed_session = \<lparr>delivered = [], stream_error = None, ended = WatchThrew TransportError\<rparr>"

definition quiet_session :: watch_session where
  "quiet_session = \<lparr>delivered = [], stream_error = None, ended = WatchReturned\<rparr>"

text \<open>The calls the engine makes for one call of \<open>watch\<close>.\<close>

definition session_calls :: "string \<Rightarrow> watch_session \<Rightarrow> api_call list" where
  "session_calls path session =
     OpenWatch path # (case ended session of WatchReturned \<Rightarrow> [] | WatchThrew e \<Rightarrow> [Sleep 5000])"

section \<open>Events of the managed server\<close>

text \<open>
  What happens to a running server: the file watcher reports a change (the argument is
  what is then at \<open>configPath\<close>), an interval timer fires, a request settles. A
  process that has ended handles no event.
\<close>

datatype server_event =
    FileChanged config_file
  | TimerFired nat
  | Settled nat ping_outcome

definition server_step :: "(string \<Rightarrow> json option) \<Rightarrow> server_event \<Rightarrow> server \<Rightarrow> server" where
  "server_step parse ev s =
     (if exit_status s \<noteq> None then s
      else case ev of
             FileChanged f \<Rightarrow> snd (config_changed parse f s)
           | TimerFired t \<Rightarrow> timer_fired t s
           | Settled rid out \<Rightarrow> settle rid out s)"

fun run :: "(string \<Rightarrow> json option) \<Rightarrow> server_event list \<Rightarrow> server \<Rightarrow> server" where
  "run parse [] s = s"
| "run parse (ev # evs) s = run parse evs (server_step parse ev s)"

text \<open>A file that is absent, cannot be read or does not parse.\<close>

definition unloadable :: "(string \<Rightarrow> json option) \<Rightarrow> config_file \<Rightarrow> bool" where
  "unloadable parse f =
     (case f of Missing \<Rightarrow> True | Unreadable \<Rightarrow> True | Contents text \<Rightarrow> parse text = None)"

definition no_load :: "(string \<Rightarrow> json option) \<Rightarrow> server_event \<Rightarrow> bool" where
  "no_load parse ev = (case ev of FileChanged f \<Rightarrow> unloadable parse f | _ \<Rightarrow> True)"

text \<open>
  An example parser: it knows the document that the operator publishes for the example
  PeeringServer with a ping interval of one second, and rejects every other text.
\<close>

definition example_config :: json where
  "example_config = config_json (desired_peers ''default'' example_ps) 1000"

definition example_parse :: "string \<Rightarrow> json option" where
  "example_parse text = (if text = JSON_stringify example_config then Some example_config else None)"

definition example_server :: server where
  "example_server =
     snd (new_server example_parse 8080 ''/etc/peering/config.json'' (Some ''small-0'') None
            (Contents (JSON_stringify example_config)))"

text \<open>
  A config file that is well-formed JSON but not a config: \<open>peers\<close> is a number. The
  parser below knows this text as well.
\<close>

definition misshapen_text :: string where
  \<open>misshapen_text = ''{"peers": 5}''\<close>

definition shape_parse :: "string \<Rightarrow> json option" where
  "shape_parse txt =
     (if txt = misshapen_text then Some (JObj [(''peers'', JNum 5)]) else example_parse txt)"

text \<open>The addresses to which a tick sends a request, for a list of peers.\<close>

definition sent_to :: "json list \<Rightarrow> string list" where
  "sent_to ps =
     List.map_filter (\<lambda>p. case peer_address p of Inl e \<Rightarrow> None | Inr a \<Rightarrow> Some a) ps"

section \<open>The store when it serves every call\<close>

lemma request_served: "faults w = [] \<Longrightarrow> request c w = (Inr (), w\<lparr>calls := calls w @ [c]\<rparr>)"
  by (simp add: request_def)

lemma createOrUpdateConfigMap_served:
  assumes "faults w = []" and "meta_namespace (cm_metadata cm) = Some ns"
  shows "createOrUpdateConfigMap cm w =
     (Inr (), w\<lparr>configMaps := (configMaps w)((ns, meta_name (cm_metadata cm)) \<mapsto> cm),
        calls := calls w @ [ReadConfigMap ns (meta_name (cm_metadata cm)),
           if configMaps w (ns, meta_name (cm_metadata cm)) = None
           then CreateConfigMap ns (meta_name (cm_metadata cm))
           else ReplaceConfigMap ns (meta_name (cm_metadata cm))],
        logs := logs w @ [if configMaps w (ns, meta_name (cm_metadata cm)) = None
           then CreatedConfigMap ns (meta_name (cm_metadata cm))
           else UpdatedConfigMap ns (meta_name (cm_metadata cm))]\<rparr>)"
  using assms
  by (auto simp: createOrUpdateConfigMap_def try_catch_def and_then_def readNamespacedConfigMap_def
      replaceNamespacedConfigMap_def createNamespacedConfigMap_def request_served logger_def throw_def Let_def
      split: option.splits)

lemma createOrUpdateStatefulSet_served:
  assumes "faults w = []" and "meta_namespace (sts_metadata x) = Some ns"
  shows "createOrUpdateStatefulSet x w =
     (Inr (), w\<lparr>statefulSets := (statefulSets w)((ns, meta_name (sts_metadata x)) \<mapsto>
           (case statefulSets w (ns, meta_name (sts_metadata x)) of None \<Rightarrow> x
            | Some old \<Rightarrow> x\<lparr>sts_status := sts_status old\<rparr>)),
        calls := calls w @ [ReadStatefulSet ns (meta_name (sts_metadata x)),
           if statefulSets w (ns, meta_name (sts_metadata x)) = None
           then CreateStatefulSet ns (meta_name (sts_metadata x))
           else ReplaceStatefulSet ns (meta_name (sts_metadata x))],
        logs := logs w @ [if statefulSets w (ns, meta_name (sts_metadata x)) = None
           then CreatedStatefulSet ns (meta_name (sts_metadata x))
           else UpdatedStatefulSet ns (meta_name (sts_metadata x))]\<rparr>)"
  using assms
  by (auto simp: createOrUpdateStatefulSet_def try_catch_def and_then_def readNamespacedStatefulSet_def
      replaceNamespacedStatefulSet_def createNamespacedStatefulSet_def request_served logger_def throw_def Let_def
      split: option.splits)

lemma createOrUpdateService_served:
  assumes "faults w = []" and "meta_namespace (svc_metadata x) = Some ns"
  shows "createOrUpdateService x w =
     (Inr (), w\<lparr>services := (services w)((ns, meta_name (svc_metadata x)) \<mapsto>
           (case services w (ns, meta_name (svc_metadata x)) of None \<Rightarrow> x
            | Some old \<Rightarrow> x\<lparr>svc_spec := (svc_spec x)\<lparr>clusterIP := clusterIP (svc_spec old)\<rparr>\<rparr>)),
        calls := calls w @ [ReadService ns (meta_name (svc_metadata x)),
           if services w (ns, meta_name (svc_metadata x)) = None
           then CreateService ns (meta_name (svc_metadata x))
           else ReplaceService ns (meta_name (svc_metadata x))],
        logs := logs w @ [if services w (ns, meta_name (svc_metadata x)) = None
           then CreatedService ns (meta_name (svc_metadata x))
           else UpdatedService ns (meta_name (svc_metadata x))]\<rparr>)"
  using assms
  by (auto simp: createOrUpdateService_def create_missing_service_def try_catch_def and_then_def readNamespacedService_def
      replaceNamespacedService_def createNamespacedService_def request_served logger_def throw_def Let_def
      split: option.splits)


lemma show_int_nat: "0 \<le> i \<Longrightarrow> show_int i = show_nat (nat i)"
  by (simp add: show_int_def)

lemma generatePeerList_loop_eq:
  "0 \<le> i \<Longrightarrow>
   generatePeerList_loop nm ns reps p i acc =
     acc @ map (\<lambda>k. \<lparr>host = nm @ ''-'' @ show_nat k @ ''.'' @ nm @ ''-headless.'' @ ns
                          @ ''.svc.cluster.local'', port = p\<rparr>) [nat i..<nat reps]"
proof (induction nm ns reps p i acc rule: generatePeerList_loop.induct)
  case (1 nm ns reps p i peers)
  show ?case
  proof (cases "i < reps")
    case True
    with "1.prems" have lt: "nat i < nat reps" by simp
    have nxt: "nat (i + 1) = Suc (nat i)" using "1.prems" by simp
    have "generatePeerList_loop nm ns reps p i peers =
          generatePeerList_loop nm ns reps p (i + 1)
            (peers @ [\<lparr>host = nm @ ''-'' @ show_int i @ ''.'' @ nm @ ''-headless.'' @ ns
                          @ ''.svc.cluster.local'', port = p\<rparr>])"
      using True by (subst generatePeerList_loop.simps) (simp add: Let_def)
    also have "\<dots> = (peers @ [\<lparr>host = nm @ ''-'' @ show_int i @ ''.'' @ nm @ ''-headless.'' @ ns
                          @ ''.svc.cluster.local'', port = p\<rparr>]) @
        map (\<lambda>k. \<lparr>host = nm @ ''-'' @ show_nat k @ ''.'' @ nm @ ''-headless.'' @ ns
                          @ ''.svc.cluster.local'', port = p\<rparr>) [nat (i + 1)..<nat reps]"
      using "1.IH"[OF True refl refl] "1.prems" by simp
    finally show ?thesis
      using lt "1.prems" by (simp add: upt_conv_Cons nxt show_int_nat)
  next
    case False
    then show ?thesis by (subst generatePeerList_loop.simps) simp
  qed
qed

lemma generatePeerList_nonpos: "reps \<le> 0 \<Longrightarrow> generatePeerList nm ns reps p = []"
  unfolding generatePeerList_def by (subst generatePeerList_loop.simps) simp

lemma updateStatus_served:
  assumes "faults w = []"
  shows "updateStatus opns ps ph w =
     (Inr (),
      (case statefulSets w (ps_namespace opns ps, meta_name (ps_metadata ps)) of
         None \<Rightarrow>
           w\<lparr>calls := calls w @ [ReadStatefulSet (ps_namespace opns ps) (meta_name (ps_metadata ps))],
             logs := logs w @ [ErrorUpdatingStatus (ps_namespace opns ps) (meta_name (ps_metadata ps)) (HttpError 404)]\<rparr>
       | Some sts \<Rightarrow>
          (case map_of (peeringServers w) (ps_namespace opns ps, meta_name (ps_metadata ps)) of
             None \<Rightarrow>
               w\<lparr>calls := calls w @ [ReadStatefulSet (ps_namespace opns ps) (meta_name (ps_metadata ps)),
                    PatchStatus (ps_namespace opns ps) (meta_name (ps_metadata ps)) ph],
                 logs := logs w @ [ErrorUpdatingStatus (ps_namespace opns ps) (meta_name (ps_metadata ps)) (HttpError 404)]\<rparr>
           | Some p0 \<Rightarrow>
               w\<lparr>peeringServers := put (ps_namespace opns ps, meta_name (ps_metadata ps))
                     (p0\<lparr>ps_status := Some \<lparr>status_replicas = num_or (Option.bind (sts_status sts) observed_replicas) 0,
                          status_readyReplicas = num_or (Option.bind (sts_status sts) observed_readyReplicas) 0,
                          phase = ph, lastUpdated = clock w\<rparr>\<rparr>) (peeringServers w),
                 calls := calls w @ [ReadStatefulSet (ps_namespace opns ps) (meta_name (ps_metadata ps)),
                    PatchStatus (ps_namespace opns ps) (meta_name (ps_metadata ps)) ph],
                 logs := logs w @ [UpdatedStatus (ps_namespace opns ps) (meta_name (ps_metadata ps))]\<rparr>)))"
  using assms
  by (auto simp: updateStatus_def try_catch_def and_then_def readNamespacedStatefulSet_def
      patchNamespacedCustomObjectStatus_def now_def request_served logger_def Let_def
      split: option.splits)


lemma builder_meta [simp]:
  "meta_namespace (cm_metadata (createConfigMap opns ps peers)) = Some (ps_namespace opns ps)"
  "meta_name (cm_metadata (createConfigMap opns ps peers)) = meta_name (ps_metadata ps) @ ''-config''"
  "meta_namespace (svc_metadata (createHeadlessService opns ps)) = Some (ps_namespace opns ps)"
  "meta_name (svc_metadata (createHeadlessService opns ps)) = meta_name (ps_metadata ps) @ ''-headless''"
  "meta_namespace (sts_metadata (createStatefulSet opns ps)) = Some (ps_namespace opns ps)"
  "meta_name (sts_metadata (createStatefulSet opns ps)) = meta_name (ps_metadata ps)"
  "sts_status (createStatefulSet opns ps) = None"
  by (simp_all add: createConfigMap_def createHeadlessService_def createStatefulSet_def
      owned_meta_def Let_def)

lemma converge_served:
  assumes "faults w = []"
  shows "fst (converge opns ps w) = Inr ()"
    and "configMaps (snd (converge opns ps w)) =
           (configMaps w)((ps_namespace opns ps, meta_name (ps_metadata ps) @ ''-config'')
              \<mapsto> createConfigMap opns ps (desired_peers opns ps))"
    and "services (snd (converge opns ps w)) =
           (services w)((ps_namespace opns ps, meta_name (ps_metadata ps) @ ''-headless'')
              \<mapsto> written_service opns ps w)"
    and "statefulSets (snd (converge opns ps w)) =
           (statefulSets w)((ps_namespace opns ps, meta_name (ps_metadata ps))
              \<mapsto> written_statefulSet opns ps w)"
    and "peeringServers (snd (converge opns ps w)) = peeringServers w"
    and "faults (snd (converge opns ps w)) = []"
    and "clock (snd (converge opns ps w)) = clock w"
proof -
  let ?ns = "ps_namespace opns ps"
  let ?cm = "createConfigMap opns ps (desired_peers opns ps)"
  obtain w1 where 1: "createOrUpdateConfigMap ?cm w = (Inr (), w1)"
    and w1: "w1 = w\<lparr>configMaps := (configMaps w)((?ns, meta_name (cm_metadata ?cm)) \<mapsto> ?cm),
        calls := calls w @ [ReadConfigMap ?ns (meta_name (cm_metadata ?cm)),
           if configMaps w (?ns, meta_name (cm_metadata ?cm)) = None
           then CreateConfigMap ?ns (meta_name (cm_metadata ?cm))
           else ReplaceConfigMap ?ns (meta_name (cm_metadata ?cm))],
        logs := logs w @ [if configMaps w (?ns, meta_name (cm_metadata ?cm)) = None
           then CreatedConfigMap ?ns (meta_name (cm_metadata ?cm))
           else UpdatedConfigMap ?ns (meta_name (cm_metadata ?cm))]\<rparr>"
    using createOrUpdateConfigMap_served[OF assms, of ?cm ?ns] by simp
  have f1: "faults w1 = []" using assms w1 by simp
  let ?svc = "createHeadlessService opns ps"
  obtain w2 where 2: "createOrUpdateService ?svc w1 = (Inr (), w2)"
    and w2: "w2 = w1\<lparr>services := (services w1)((?ns, meta_name (svc_metadata ?svc)) \<mapsto>
           (case services w1 (?ns, meta_name (svc_metadata ?svc)) of None \<Rightarrow> ?svc
            | Some old \<Rightarrow> ?svc\<lparr>svc_spec := (svc_spec ?svc)\<lparr>clusterIP := clusterIP (svc_spec old)\<rparr>\<rparr>)),
        calls := calls w1 @ [ReadService ?ns (meta_name (svc_metadata ?svc)),
           if services w1 (?ns, meta_name (svc_metadata ?svc)) = None
           then CreateService ?ns (meta_name (svc_metadata ?svc))
           else ReplaceService ?ns (meta_name (svc_metadata ?svc))],
        logs := logs w1 @ [if services w1 (?ns, meta_name (svc_metadata ?svc)) = None
           then CreatedService ?ns (meta_name (svc_metadata ?svc))
           else UpdatedService ?ns (meta_name (svc_metadata ?svc))]\<rparr>"
    using createOrUpdateService_served[OF f1, of ?svc ?ns] by simp
  have f2: "faults w2 = []" using f1 w2 by simp
  let ?sts = "createStatefulSet opns ps"
  obtain w3 where 3: "createOrUpdateStatefulSet ?sts w2 = (Inr (), w3)"
    and w3: "w3 = w2\<lparr>statefulSets := (statefulSets w2)((?ns, meta_name (sts_metadata ?sts)) \<mapsto>
           (case statefulSets w2 (?ns, meta_name (sts_metadata ?sts)) of None \<Rightarrow> ?sts
            | Some old \<Rightarrow> ?sts\<lparr>sts_status := sts_status old\<rparr>)),
        calls := calls w2 @ [ReadStatefulSet ?ns (meta_name (sts_metadata ?sts)),
           if statefulSets w2 (?ns, meta_name (sts_metadata ?sts)) = None
           then CreateStatefulSet ?ns (meta_name (sts_metadata ?sts))
           else ReplaceStatefulSet ?ns (meta_name (sts_metadata ?sts))],
        logs := logs w2 @ [if statefulSets w2 (?ns, meta_name (sts_metadata ?sts)) = None
           then CreatedStatefulSet ?ns (meta_name (sts_metadata ?sts))
           else UpdatedStatefulSet ?ns (meta_name (sts_metadata ?sts))]\<rparr>"
    using createOrUpdateStatefulSet_served[OF f2, of ?sts ?ns] by simp
  have conv: "converge opns ps w = (Inr (), w3)"
    using 1 2 3 by (simp add: converge_def and_then_def Let_def desired_peers_def)
  show "fst (converge opns ps w) = Inr ()"
    and "configMaps (snd (converge opns ps w)) =
           (configMaps w)((ps_namespace opns ps, meta_name (ps_metadata ps) @ ''-config'')
              \<mapsto> createConfigMap opns ps (desired_peers opns ps))"
    and "services (snd (converge opns ps w)) =
           (services w)((ps_namespace opns ps, meta_name (ps_metadata ps) @ ''-headless'')
              \<mapsto> written_service opns ps w)"
    and "statefulSets (snd (converge opns ps w)) =
           (statefulSets w)((ps_namespace opns ps, meta_name (ps_metadata ps))
              \<mapsto> written_statefulSet opns ps w)"
    and "peeringServers (snd (converge opns ps w)) = peeringServers w"
    and "faults (snd (converge opns ps w)) = []"
    and "clock (snd (converge opns ps w)) = clock w"
    unfolding conv w3 w2 w1 using assms
    by (simp_all add: written_service_def written_statefulSet_def split: option.splits)
qed

lemma reconcile_served:
  assumes "faults w = []"
  shows "fst (reconcile opns ps w) = Inr ()"
    and "configMaps (snd (reconcile opns ps w)) =
           (configMaps w)((ps_namespace opns ps, meta_name (ps_metadata ps) @ ''-config'')
              \<mapsto> createConfigMap opns ps (desired_peers opns ps))"
    and "services (snd (reconcile opns ps w)) =
           (services w)((ps_namespace opns ps, meta_name (ps_metadata ps) @ ''-headless'')
              \<mapsto> written_service opns ps w)"
    and "statefulSets (snd (reconcile opns ps w)) =
           (statefulSets w)((ps_namespace opns ps, meta_name (ps_metadata ps))
              \<mapsto> written_statefulSet opns ps w)"
    and "peeringServers (snd (reconcile opns ps w)) =
           (case map_of (peeringServers w) (ps_namespace opns ps, meta_name (ps_metadata ps)) of
              None \<Rightarrow> peeringServers w
            | Some p0 \<Rightarrow> put (ps_namespace opns ps, meta_name (ps_metadata ps))
                (p0\<lparr>ps_status := Some (written_status opns ps ''Running'' w)\<rparr>) (peeringServers w))"
    and "faults (snd (reconcile opns ps w)) = []"
    and "clock (snd (reconcile opns ps w)) = clock w"
proof -
  let ?w0 = "w\<lparr>logs := logs w @ [Reconciling (ps_namespace opns ps) (meta_name (ps_metadata ps))]\<rparr>"
  have f0: "faults ?w0 = []" using assms by simp
  obtain w1 where conv: "converge opns ps ?w0 = (Inr (), w1)"
    using converge_served(1)[OF f0, of opns ps] by (cases "converge opns ps ?w0") simp
  have w1: "configMaps w1 = (configMaps w)((ps_namespace opns ps, meta_name (ps_metadata ps) @ ''-config'')
              \<mapsto> createConfigMap opns ps (desired_peers opns ps))"
    "services w1 = (services w)((ps_namespace opns ps, meta_name (ps_metadata ps) @ ''-headless'')
              \<mapsto> written_service opns ps w)"
    "statefulSets w1 = (statefulSets w)((ps_namespace opns ps, meta_name (ps_metadata ps))
              \<mapsto> written_statefulSet opns ps w)"
    "peeringServers w1 = peeringServers w" "faults w1 = []" "clock w1 = clock w"
    using converge_served(2-7)[OF f0, of opns ps] conv
    by (simp_all add: written_service_def written_statefulSet_def)
  have rec: "reconcile opns ps w =
     (case updateStatus opns ps ''Running'' w1 of
        (r, w2) \<Rightarrow> (Inr (), w2\<lparr>logs := logs w2 @ [SuccessfullyReconciled (ps_namespace opns ps) (meta_name (ps_metadata ps))]\<rparr>))"
    using conv updateStatus_served[OF w1(5), of opns ps "''Running''"]
    by (simp add: reconcile_def and_then_def try_catch_def logger_def Let_def)
  show "fst (reconcile opns ps w) = Inr ()"
    and "configMaps (snd (reconcile opns ps w)) =
           (configMaps w)((ps_namespace opns ps, meta_name (ps_metadata ps) @ ''-config'')
              \<mapsto> createConfigMap opns ps (desired_peers opns ps))"
    and "services (snd (reconcile opns ps w)) =
           (services w)((ps_namespace opns ps, meta_name (ps_metadata ps) @ ''-headless'')
              \<mapsto> written_service opns ps w)"
    and "statefulSets (snd (reconcile opns ps w)) =
           (statefulSets w)((ps_namespace opns ps, meta_name (ps_metadata ps))
              \<mapsto> written_statefulSet opns ps w)"
    and "peeringServers (snd (reconcile opns ps w)) =
           (case map_of (peeringServers w) (ps_namespace opns ps, meta_name (ps_metadata ps)) of
              None \<Rightarrow> peeringServers w
            | Some p0 \<Rightarrow> put (ps_namespace opns ps, meta_name (ps_metadata ps))
                (p0\<lparr>ps_status := Some (written_status opns ps ''Running'' w)\<rparr>) (peeringServers w))"
    and "faults (snd (reconcile opns ps w)) = []"
    and "clock (snd (reconcile opns ps w)) = clock w"
    unfolding rec updateStatus_served[OF w1(5)]
    by (simp_all add: w1 written_status_def written_statefulSet_def Let_def split: option.splits)
qed


section \<open>A reconcile after a served reconcile\<close>


lemma map_of_put: "map_of (put k v kvs) = (map_of kvs)(k \<mapsto> v)"
  by (induction kvs) (auto simp: fun_eq_iff)

lemma put_same_erased:
  "map_of kvs k = Some p \<Longrightarrow> f p' = f p \<Longrightarrow>
   map (\<lambda>kv. (fst kv, f (snd kv))) (put k p' kvs) = map (\<lambda>kv. (fst kv, f (snd kv))) kvs"
  by (induction kvs) (auto split: if_splits)

lemma written_service_again:
  assumes "services w' (ps_namespace opns ps, meta_name (ps_metadata ps) @ ''-headless'') =
             Some (written_service opns ps w)"
  shows "written_service opns ps w' = written_service opns ps w"
proof (cases "services w (ps_namespace opns ps, meta_name (ps_metadata ps) @ ''-headless'')")
  case None
  then show ?thesis using assms by (simp add: written_service_def)
next
  case (Some old)
  then show ?thesis using assms by (simp add: written_service_def)
qed

lemma written_statefulSet_status:
  "sts_status (written_statefulSet opns ps w) =
     Option.bind (statefulSets w (ps_namespace opns ps, meta_name (ps_metadata ps))) sts_status"
  by (simp add: written_statefulSet_def split: option.splits)

lemma written_statefulSet_again:
  assumes "statefulSets w' (ps_namespace opns ps, meta_name (ps_metadata ps)) =
             Some (written_statefulSet opns ps w)"
  shows "written_statefulSet opns ps w' = written_statefulSet opns ps w"
proof (cases "statefulSets w (ps_namespace opns ps, meta_name (ps_metadata ps))")
  case None
  then show ?thesis using assms by (simp add: written_statefulSet_def)
next
  case (Some old)
  then show ?thesis using assms by (simp add: written_statefulSet_def)
qed

lemma written_status_again:
  assumes "statefulSets w' (ps_namespace opns ps, meta_name (ps_metadata ps)) =
             Some (written_statefulSet opns ps w)"
  shows "(written_status opns ps ph w')\<lparr>lastUpdated := 0\<rparr> =
         (written_status opns ps ph w)\<lparr>lastUpdated := 0\<rparr>"
  using assms by (simp add: written_status_def written_statefulSet_status Let_def)

lemma settled_after_served:
  assumes "faults w = []"
  shows "settled opns ps (snd (reconcile opns ps w))"
proof -
  let ?w' = "snd (reconcile opns ps w)"
  note r = reconcile_served[OF assms, of opns ps]
  have svc: "services ?w' (ps_namespace opns ps, meta_name (ps_metadata ps) @ ''-headless'') =
             Some (written_service opns ps w)"
    by (simp add: r(3))
  have sts: "statefulSets ?w' (ps_namespace opns ps, meta_name (ps_metadata ps)) =
             Some (written_statefulSet opns ps w)"
    by (simp add: r(4))
  have st: "case map_of (peeringServers ?w') (ps_namespace opns ps, meta_name (ps_metadata ps)) of
          None \<Rightarrow> True
        | Some p \<Rightarrow>
            map_option (\<lambda>st. st\<lparr>lastUpdated := 0\<rparr>) (ps_status p) =
              Some ((written_status opns ps ''Running'' ?w')\<lparr>lastUpdated := 0\<rparr>)"
    unfolding written_status_again[OF sts]
    by (simp add: r(5) map_of_put split: option.splits)
  show ?thesis
    unfolding settled_def
    using r(6) r(2) svc sts st
    by (simp add: written_service_again[OF svc] written_statefulSet_again[OF sts])
qed

lemma settled_step:
  assumes "settled opns ps w"
  shows "configMaps (snd (reconcile opns ps (w\<lparr>clock := t\<rparr>))) = configMaps w"
    and "services (snd (reconcile opns ps (w\<lparr>clock := t\<rparr>))) = services w"
    and "statefulSets (snd (reconcile opns ps (w\<lparr>clock := t\<rparr>))) = statefulSets w"
    and "statuses (snd (reconcile opns ps (w\<lparr>clock := t\<rparr>))) = statuses w"
    and "settled opns ps (snd (reconcile opns ps (w\<lparr>clock := t\<rparr>)))"
proof -
  let ?w = "w\<lparr>clock := t\<rparr>"
  have f: "faults ?w = []" using assms by (simp add: settled_def)
  note r = reconcile_served[OF f, of opns ps]
  have svc: "services ?w (ps_namespace opns ps, meta_name (ps_metadata ps) @ ''-headless'') =
             Some (written_service opns ps w)"
    and sts: "statefulSets ?w (ps_namespace opns ps, meta_name (ps_metadata ps)) =
             Some (written_statefulSet opns ps w)"
    using assms by (simp_all add: settled_def)
  show "configMaps (snd (reconcile opns ps ?w)) = configMaps w"
    using assms r(2) by (auto simp: settled_def fun_eq_iff)
  show "services (snd (reconcile opns ps ?w)) = services w"
    using svc r(3) by (auto simp: fun_eq_iff written_service_again[OF svc])
  show "statefulSets (snd (reconcile opns ps ?w)) = statefulSets w"
    using sts r(4) by (auto simp: fun_eq_iff written_statefulSet_again[OF sts])
  show "statuses (snd (reconcile opns ps ?w)) = statuses w"
  proof (cases "map_of (peeringServers w) (ps_namespace opns ps, meta_name (ps_metadata ps))")
    case None
    then show ?thesis using r(5) by (simp add: statuses_def)
  next
    case (Some p)
    have "map_option (\<lambda>st. st\<lparr>lastUpdated := 0\<rparr>) (ps_status p) =
              Some ((written_status opns ps ''Running'' w)\<lparr>lastUpdated := 0\<rparr>)"
      using assms Some by (simp add: settled_def)
    then have "erase_lastUpdated (p\<lparr>ps_status := Some (written_status opns ps ''Running'' ?w)\<rparr>)
               = erase_lastUpdated p"
      using written_status_again[OF sts, of "''Running''"]
      by (auto simp: erase_lastUpdated_def)
    then show ?thesis
      using r(5) Some by (simp add: statuses_def put_same_erased)
  qed
  show "settled opns ps (snd (reconcile opns ps ?w))"
    by (rule settled_after_served[OF f])
qed


section \<open>What every reconcile keeps, served or not\<close>


lemma keepsI: "(\<And>w. R w (snd (m w))) \<Longrightarrow> keeps R m"
  by (simp add: keeps_def)

lemma keepsD: "keeps R m \<Longrightarrow> R w (snd (m w))"
  by (simp add: keeps_def)

lemma keeps_return: "reflp R \<Longrightarrow> keeps R (return x)"
  by (simp add: keeps_def return_def reflp_def)

lemma keeps_throw: "reflp R \<Longrightarrow> keeps R (throw e)"
  by (simp add: keeps_def throw_def reflp_def)

lemma keeps_and_then:
  assumes "transp R" and "keeps R m" and "\<And>x. keeps R (k x)"
  shows "keeps R (and_then m k)"
proof (rule keepsI)
  fix w
  obtain r w' where m: "m w = (r, w')" by (cases "m w")
  have 1: "R w w'" using keepsD[OF assms(2), of w] m by simp
  show "R w (snd (and_then m k w))"
  proof (cases r)
    case (Inl e)
    then show ?thesis using m 1 by (simp add: and_then_def)
  next
    case (Inr x)
    have "R w' (snd (k x w'))" using keepsD[OF assms(3)] .
    with 1 have "R w (snd (k x w'))" using assms(1) by (meson transpD)
    then show ?thesis using m Inr by (simp add: and_then_def)
  qed
qed

lemma keeps_try_catch:
  assumes "transp R" and "keeps R m" and "\<And>e. keeps R (h e)"
  shows "keeps R (try_catch m h)"
proof (rule keepsI)
  fix w
  obtain r w' where m: "m w = (r, w')" by (cases "m w")
  have 1: "R w w'" using keepsD[OF assms(2), of w] m by simp
  show "R w (snd (try_catch m h w))"
  proof (cases r)
    case (Inr x)
    then show ?thesis using m 1 by (simp add: try_catch_def)
  next
    case (Inl e)
    have "R w' (snd (h e w'))" using keepsD[OF assms(3)] .
    with 1 have "R w (snd (h e w'))" using assms(1) by (meson transpD)
    then show ?thesis using m Inl by (simp add: try_catch_def)
  qed
qed

lemma clusterIPs_kept_refl: "reflp clusterIPs_kept"
  by (simp add: reflp_def clusterIPs_kept_def)

lemma clusterIPs_kept_trans: "transp clusterIPs_kept"
  unfolding transp_def clusterIPs_kept_def by metis

lemma same_services_kept: "services w' = services w \<Longrightarrow> clusterIPs_kept w w'"
  by (simp add: clusterIPs_kept_def)

lemma request_services: "services (snd (request c w)) = services w"
  by (simp add: request_def Let_def split: list.splits option.splits)

lemma request_result:
  "request c w = (r, w') \<Longrightarrow> services w' = services w \<and> configMaps w' = configMaps w
     \<and> statefulSets w' = statefulSets w \<and> peeringServers w' = peeringServers w \<and> clock w' = clock w"
  by (auto simp: request_def Let_def split: list.splits option.splits)


lemma keeps_if: "keeps R a \<Longrightarrow> keeps R b \<Longrightarrow> keeps R (if c then a else b)"
  by simp

lemma keeps_option:
  "keeps R a \<Longrightarrow> (\<And>x. keeps R (f x)) \<Longrightarrow> keeps R (case v of None \<Rightarrow> a | Some x \<Rightarrow> f x)"
  by (cases v) simp_all

lemma logger_keeps: "keeps clusterIPs_kept (logger l)"
  by (rule keepsI) (simp add: logger_def clusterIPs_kept_def)

lemma request_keeps: "keeps clusterIPs_kept (request c)"
  by (rule keepsI) (simp add: same_services_kept request_services)

lemma prim_keeps:
  "keeps clusterIPs_kept (readNamespacedConfigMap nm ns)"
  "keeps clusterIPs_kept (replaceNamespacedConfigMap nm ns cm)"
  "keeps clusterIPs_kept (createNamespacedConfigMap ns cm)"
  "keeps clusterIPs_kept (readNamespacedStatefulSet nm ns)"
  "keeps clusterIPs_kept (replaceNamespacedStatefulSet nm ns sts)"
  "keeps clusterIPs_kept (createNamespacedStatefulSet ns sts)"
  "keeps clusterIPs_kept (patchNamespacedCustomObjectStatus ns nm st)"
  "keeps clusterIPs_kept (readNamespacedService nm ns)"
  "keeps clusterIPs_kept (createNamespacedService ns svc)"
  "keeps clusterIPs_kept now"
  unfolding readNamespacedConfigMap_def replaceNamespacedConfigMap_def createNamespacedConfigMap_def
    readNamespacedStatefulSet_def replaceNamespacedStatefulSet_def createNamespacedStatefulSet_def
    patchNamespacedCustomObjectStatus_def readNamespacedService_def createNamespacedService_def
    now_def Let_def
  by (intro keeps_and_then clusterIPs_kept_trans request_keeps keepsI;
      simp add: clusterIPs_kept_def split: option.splits)+

lemma createOrUpdateService_keeps: "keeps clusterIPs_kept (createOrUpdateService svc)"
  apply (rule keepsI)
  apply (simp add: createOrUpdateService_def create_missing_service_def throw_def Let_def
      readNamespacedService_def replaceNamespacedService_def createNamespacedService_def
      and_then_def try_catch_def logger_def clusterIPs_kept_def
      split: option.splits prod.splits sum.splits)
  apply (auto dest!: request_result split: if_splits)
  done

lemma createOrUpdateConfigMap_keeps: "keeps clusterIPs_kept (createOrUpdateConfigMap cm)"
  unfolding createOrUpdateConfigMap_def Let_def
  by (intro keeps_option keeps_try_catch keeps_and_then keeps_if keeps_throw clusterIPs_kept_trans
      clusterIPs_kept_refl prim_keeps logger_keeps)

lemma createOrUpdateStatefulSet_keeps: "keeps clusterIPs_kept (createOrUpdateStatefulSet x)"
  unfolding createOrUpdateStatefulSet_def Let_def
  by (intro keeps_option keeps_try_catch keeps_and_then keeps_if keeps_throw clusterIPs_kept_trans
      clusterIPs_kept_refl prim_keeps logger_keeps)

lemma updateStatus_keeps: "keeps clusterIPs_kept (updateStatus opns ps ph)"
  unfolding updateStatus_def Let_def
  by (intro keeps_option keeps_try_catch keeps_and_then keeps_if keeps_throw clusterIPs_kept_trans
      clusterIPs_kept_refl prim_keeps logger_keeps)

lemma converge_keeps: "keeps clusterIPs_kept (converge opns ps)"
  unfolding converge_def Let_def
  by (intro keeps_and_then clusterIPs_kept_trans createOrUpdateService_keeps
      createOrUpdateConfigMap_keeps createOrUpdateStatefulSet_keeps)

lemma reconcile_keeps: "keeps clusterIPs_kept (reconcile opns ps)"
  unfolding reconcile_def Let_def
  by (intro keeps_and_then keeps_try_catch clusterIPs_kept_trans converge_keeps logger_keeps
      updateStatus_keeps)


section \<open>The status update and the two ways out of reconcile\<close>



lemma request_served_next:
  assumes "served (Suc n) w"
  shows "request c w = (Inr (), w\<lparr>calls := calls w @ [c], faults := tl (faults w)\<rparr>)"
    and "served n (w\<lparr>calls := calls w @ [c], faults := tl (faults w)\<rparr>)"
  using assms by (cases "faults w"; auto simp: served_def request_def Let_def)+

lemma updateStatus_returns: "fst (updateStatus opns ps ph w) = Inr ()"
  by (simp add: updateStatus_def try_catch_def logger_def Let_def split: prod.splits sum.splits)

lemma reconcile_returns: "fst (reconcile opns ps w) = Inr ()"
  using updateStatus_returns
  by (simp add: reconcile_def try_catch_def and_then_def logger_def Let_def
      split: prod.splits sum.splits)

lemma updateStatus_patches:
  assumes "served 2 w"
    and "statefulSets w (ps_namespace opns ps, meta_name (ps_metadata ps)) = Some sts"
    and "map_of (peeringServers w) (ps_namespace opns ps, meta_name (ps_metadata ps)) = Some p0"
  shows "map_of (peeringServers (snd (updateStatus opns ps ph w)))
           (ps_namespace opns ps, meta_name (ps_metadata ps)) =
         Some (p0\<lparr>ps_status := Some (written_status opns ps ph w)\<rparr>)"
proof -
  have s2: "served (Suc (Suc 0)) w" using assms(1) by (simp add: numeral_2_eq_2)
  let ?w1 = "w\<lparr>calls := calls w @ [ReadStatefulSet (ps_namespace opns ps) (meta_name (ps_metadata ps))],
               faults := tl (faults w)\<rparr>"
  note r1 = request_served_next[OF s2, of "ReadStatefulSet (ps_namespace opns ps) (meta_name (ps_metadata ps))"]
  note r2 = request_served_next(1)[OF r1(2), of "PatchStatus (ps_namespace opns ps) (meta_name (ps_metadata ps)) ph"]
  show ?thesis
    using assms(2,3)
    by (simp add: updateStatus_def try_catch_def and_then_def readNamespacedStatefulSet_def
        patchNamespacedCustomObjectStatus_def now_def logger_def Let_def r1(1) r2
        map_of_put written_status_def)
qed

lemma updateStatus_logged:
  "peeringServers (snd (updateStatus opns ps ph w)) = peeringServers w  \<and> 
    (\<exists>e. last (logs (snd (updateStatus opns ps ph w))) =
             ErrorUpdatingStatus (ps_namespace opns ps) (meta_name (ps_metadata ps)) e) 
  \<or> last (logs (snd (updateStatus opns ps ph w))) = UpdatedStatus (ps_namespace opns ps) (meta_name (ps_metadata ps))"
  apply (simp add: updateStatus_def try_catch_def and_then_def readNamespacedStatefulSet_def
        patchNamespacedCustomObjectStatus_def now_def logger_def Let_def
        split: prod.splits sum.splits option.splits)
  apply (auto simp: request_def Let_def split: list.splits option.splits)
  done

lemma reconcile_on_error:
  assumes "converge opns ps (w\<lparr>logs := logs w @ [Reconciling (ps_namespace opns ps) (meta_name (ps_metadata ps))]\<rparr>) = (Inl e, w1)"
  shows "reconcile opns ps w =
           updateStatus opns ps ''Failed''
             (w1\<lparr>logs := logs w1 @ [ErrorReconciling (ps_namespace opns ps) (meta_name (ps_metadata ps)) e]\<rparr>)"
  using assms
  by (simp add: reconcile_def try_catch_def and_then_def logger_def Let_def)

lemma reconcile_on_success:
  assumes "converge opns ps (w\<lparr>logs := logs w @ [Reconciling (ps_namespace opns ps) (meta_name (ps_metadata ps))]\<rparr>) = (Inr u, w1)"
  shows "reconcile opns ps w =
           (Inr (), (snd (updateStatus opns ps ''Running'' w1))
              \<lparr>logs := logs (snd (updateStatus opns ps ''Running'' w1)) @
                        [SuccessfullyReconciled (ps_namespace opns ps) (meta_name (ps_metadata ps))]\<rparr>)"
proof -
  obtain r w2 where u: "updateStatus opns ps ''Running'' w1 = (r, w2)"
    by (cases "updateStatus opns ps ''Running'' w1")
  then have "r = Inr ()" using updateStatus_returns[of opns ps "''Running''" w1] by simp
  with u assms show ?thesis
    by (simp add: reconcile_def try_catch_def and_then_def logger_def Let_def)
qed


section \<open>The managed server: loading, ticks and events\<close>


lemma loadConfig_missing:
  "on_disk s = Missing \<Longrightarrow>
   loadConfig parse s = (Inr (), s\<lparr>server_logs := server_logs s @ [ConfigNotFound (configPath s)]\<rparr>)"
  by (simp add: loadConfig_def try_catch_def log_line_def)

lemma loadConfig_unreadable:
  "on_disk s = Unreadable \<Longrightarrow>
   loadConfig parse s = (Inr (), s\<lparr>server_logs := server_logs s @ [ErrorLoadingConfig IOError]\<rparr>)"
  by (simp add: loadConfig_def try_catch_def log_line_def)

lemma loadConfig_unparsable:
  "on_disk s = Contents txt \<Longrightarrow> parse txt = None \<Longrightarrow>
   loadConfig parse s = (Inr (), s\<lparr>server_logs := server_logs s @ [ErrorLoadingConfig SyntaxError]\<rparr>)"
  by (simp add: loadConfig_def try_catch_def log_line_def)

lemma new_server_missing:
  "new_server parse p path pod hostname Missing =
     (Inr (),
      \<lparr>listen_port = p, serverName = server_name pod hostname p, configPath = path,
       config = JObj [(''peers'', JArr []), (''pingInterval'', JNum 60000)],
       pingIntervalId = None, configWatcher = True, timers = [], next_handle = 0,
       inflight = [], rejections = [],
       server_logs = [ConfigNotFound path, WatchingConfig path],
       on_disk = Missing, exit_status = None\<rparr>)"
  by (simp add: new_server_def and_then_def loadConfig_missing watchConfig_def log_line_def
      default_config_def)

lemma loadConfig_unloadable:
  assumes "unloadable parse (on_disk s)"
  shows "timers (snd (loadConfig parse s)) = timers s"
    and "pingIntervalId (snd (loadConfig parse s)) = pingIntervalId s"
    and "inflight (snd (loadConfig parse s)) = inflight s"
  using assms
  by (cases "on_disk s";
      simp add: unloadable_def loadConfig_missing loadConfig_unreadable loadConfig_unparsable)+

lemma config_changed_unloadable:
  assumes "unloadable parse f"
  shows "timers (snd (config_changed parse f s)) = timers s"
    and "pingIntervalId (snd (config_changed parse f s)) = pingIntervalId s"
    and "inflight (snd (config_changed parse f s)) = inflight s"
proof -
  let ?s1 = "s\<lparr>on_disk := f, server_logs := server_logs s @ [ConfigChanged (configPath s)]\<rparr>"
  have u: "unloadable parse (on_disk ?s1)" using assms by simp
  have c: "configWatcher s \<Longrightarrow> config_changed parse f s = loadConfig parse ?s1"
    by (simp add: config_changed_def and_then_def log_line_def)
  show "timers (snd (config_changed parse f s)) = timers s"
    and "pingIntervalId (snd (config_changed parse f s)) = pingIntervalId s"
    and "inflight (snd (config_changed parse f s)) = inflight s"
    using loadConfig_unloadable[OF u] c
    by (cases "configWatcher s"; simp add: config_changed_def)+
qed

lemma fold_pingPeer:
  "take (length (inflight s)) (inflight (fold pingPeer ps s)) = inflight s
   \<and> map req_address (inflight (fold pingPeer ps s)) = map req_address (inflight s) @ sent_to ps
   \<and> timers (fold pingPeer ps s) = timers s
   \<and> pingIntervalId (fold pingPeer ps s) = pingIntervalId s
   \<and> rejections (fold pingPeer ps s) = rejections s
   \<and> config (fold pingPeer ps s) = config s
   \<and> server_logs (fold pingPeer ps s) = server_logs s
   \<and> exit_status (fold pingPeer ps s) = exit_status s"
proof (induction ps arbitrary: s)
  case Nil
  then show ?case by (simp add: sent_to_def List.map_filter_simps)
next
  case (Cons p ps)
  show ?case
  proof (cases "peer_address p")
    case (Inl e)
    then have "pingPeer p s = s" by (simp add: pingPeer_def)
    then show ?thesis using Cons.IH[of s] Inl by (simp add: sent_to_def List.map_filter_simps)
  next
    case (Inr a)
    define s1 where "s1 = pingPeer p s"
    define r where "r = \<lparr>req_id = next_handle s, req_address = a,
                         req_url = ''http://'' @ a @ ''/ping'', req_timeout = 5000,
                         req_user_agent = ''PeeringServer/'' @ serverName s\<rparr>"
    have s1: "inflight s1 = inflight s @ [r]"
      "timers s1 = timers s" "pingIntervalId s1 = pingIntervalId s"
      "rejections s1 = rejections s" "config s1 = config s" "server_logs s1 = server_logs s"
      "exit_status s1 = exit_status s"
      using Inr by (simp_all add: pingPeer_def s1_def r_def)
    have addr: "req_address r = a" by (simp add: r_def)
    have step: "fold pingPeer (p # ps) s = fold pingPeer ps s1" by (simp add: s1_def)
    note ih = Cons.IH[of s1]
    have "take (length (inflight s)) (inflight (fold pingPeer ps s1)) =
          take (length (inflight s)) (take (length (inflight s1)) (inflight (fold pingPeer ps s1)))"
      by (simp add: s1(1) min_def)
    also have "\<dots> = take (length (inflight s)) (inflight s1)"
      using ih by simp
    also have "\<dots> = inflight s"
      by (simp add: s1(1))
    finally have pre: "take (length (inflight s)) (inflight (fold pingPeer ps s1)) = inflight s" .
    have sent: "sent_to (p # ps) = a # sent_to ps"
      using Inr by (simp add: sent_to_def List.map_filter_simps)
    have addrs: "map req_address (inflight (fold pingPeer ps s1)) =
                 map req_address (inflight s) @ sent_to (p # ps)"
      using ih by (simp add: s1(1) addr sent)
    show ?thesis
      unfolding step using pre addrs ih by (simp add: s1(2-7))
  qed
qed

lemma fold_pingPeer_prefix:
  "take (length (inflight s)) (inflight (fold pingPeer ps s)) = inflight s"
  using fold_pingPeer[where s = s and ps = ps] by simp

lemma pingAllPeers_frame:
  "timers (pingAllPeers s) = timers s"
  "pingIntervalId (pingAllPeers s) = pingIntervalId s"
  "config (pingAllPeers s) = config s"
  "take (length (inflight s)) (inflight (pingAllPeers s)) = inflight s"
  using fold_pingPeer[where s = "s\<lparr>server_logs := server_logs s @ [PingingPeers x]\<rparr>" for x]
    fold_pingPeer_prefix[where s = "s\<lparr>server_logs := server_logs s @ [PingingPeers x]\<rparr>" for x]
  by (auto simp: pingAllPeers_def pingAllPeers_body_def and_then_def evaluate_def log_line_def
      throw_def split: sum.splits option.splits json.splits prod.splits)

lemma pingAllPeers_array:
  assumes "get_prop (config s) ''peers'' = Inr (Some (JArr ps))"
  shows "map req_address (inflight (pingAllPeers s)) = map req_address (inflight s) @ sent_to ps"
    and "rejections (pingAllPeers s) = rejections s"
proof -
  have len: "member2 (config s) ''peers'' ''length'' = Inr (Some (JNum (int (length ps))))"
    using assms by (simp add: member2_def)
  let ?s1 = "s\<lparr>server_logs := server_logs s @ [PingingPeers (Some (JNum (int (length ps))))]\<rparr>"
  have run: "pingAllPeers s = (if ps = [] then s\<lparr>server_logs := server_logs s @ [NoPeersConfigured]\<rparr>
                               else fold pingPeer ps ?s1)"
    using assms len
    by (simp add: pingAllPeers_def pingAllPeers_body_def and_then_def evaluate_def log_line_def)
  show "map req_address (inflight (pingAllPeers s)) = map req_address (inflight s) @ sent_to ps"
    using fold_pingPeer[where ps = ps and s = "?s1"] by (simp add: run sent_to_def List.map_filter_simps)
  show "rejections (pingAllPeers s) = rejections s"
    using fold_pingPeer[where ps = ps and s = "?s1"] by (simp add: run)
qed

lemma settle_frame:
  "inflight (settle rid out s) = filter (\<lambda>r. req_id r \<noteq> rid) (inflight s)"
  "timers (settle rid out s) = timers s"
  "pingIntervalId (settle rid out s) = pingIntervalId s"
  "rejections (settle rid out s) = rejections s"
  "config (settle rid out s) = config s"
proof -
  show "inflight (settle rid out s) = filter (\<lambda>r. req_id r \<noteq> rid) (inflight s)"
  proof (cases "find (\<lambda>r. req_id r = rid) (inflight s)")
    case None
    then have "\<forall>r\<in>set (inflight s). req_id r \<noteq> rid" by (simp add: find_None_iff)
    then have "filter (\<lambda>r. req_id r \<noteq> rid) (inflight s) = inflight s" by simp
    then show ?thesis using None by (simp add: settle_def)
  next
    case (Some r)
    then show ?thesis by (simp add: settle_def)
  qed
qed (simp_all add: settle_def split: option.splits)

lemma step_no_load:
  assumes "no_load parse ev"
  shows "timers (server_step parse ev s) = timers s"
    and "pingIntervalId (server_step parse ev s) = pingIntervalId s"
    and "timers s = [] \<Longrightarrow> inflight s = [] \<Longrightarrow> inflight (server_step parse ev s) = []"
  using assms
  by (cases ev; cases "exit_status s";
      simp add: server_step_def no_load_def config_changed_unloadable timer_fired_def
        pingAllPeers_frame settle_frame)+

lemma run_no_load:
  assumes "list_all (no_load parse) evs"
  shows "timers (run parse evs s) = timers s"
    and "pingIntervalId (run parse evs s) = pingIntervalId s"
    and "timers s = [] \<Longrightarrow> inflight s = [] \<Longrightarrow> inflight (run parse evs s) = []"
  using assms
proof (induction evs arbitrary: s)
  case Nil
  {
    case 1 show ?case by simp
  next
    case 2 show ?case by simp
  next
    case 3 then show ?case by simp
  }
next
  case (Cons ev evs)
  {
    case 1
    then show ?case using Cons.IH(1)[of "server_step parse ev s"] step_no_load(1)[of parse ev s] by simp
  next
    case 2
    then show ?case using Cons.IH(2)[of "server_step parse ev s"] step_no_load(2)[of parse ev s] by simp
  next
    case 3
    then show ?case
      using Cons.IH(3)[of "server_step parse ev s"] step_no_load(1,3)[of parse ev s] by simp
  }
qed



lemma example_parse_facts:
  "example_parse (JSON_stringify example_config) = Some example_config"
  "example_parse ''{'' = None"
  by (simp_all add: example_parse_def JSON_stringify_def example_config_def config_json_def
      newline_indent_def)

lemma example_peers:
  "desired_peers ''default'' example_ps =
     [\<lparr>host = ''small-0.small-headless.default.svc.cluster.local'', port = 8080\<rparr>,
      \<lparr>host = ''small-1.small-headless.default.svc.cluster.local'', port = 8080\<rparr>,
      \<lparr>host = ''small-2.small-headless.default.svc.cluster.local'', port = 8080\<rparr>]"
proof -
  have up: "[0..<(3::nat)] = [0, 1, 2]" by (simp add: upt_rec)
  have digits: "show_nat 0 = ''0''" "show_nat (Suc 0) = ''1''" "show_nat 2 = ''2''"
    by (simp_all add: show_nat.simps digit_char_def)
  have "desired_peers ''default'' example_ps = generatePeerList ''small'' ''default'' 3 8080"
    by (simp add: desired_peers_def example_ps_def ps_namespace_def ps_port_def str_or_def num_or_def)
  then show ?thesis
    using generatePeerList_loop_eq[of 0 "''small''" "''default''" 3 8080 "[]"]
    by (simp add: generatePeerList_def up digits)
qed

lemma example_server_eq:
  "example_server =
     \<lparr>listen_port = 8080, serverName = ''small-0'', configPath = ''/etc/peering/config.json'',
      config = example_config,
      pingIntervalId = Some 3, configWatcher = True,
      timers = [(3, Some (JNum 1000))], next_handle = 4,
      inflight =
        [\<lparr>req_id = 0, req_address = ''small-0.small-headless.default.svc.cluster.local:8080'',
          req_url = ''http://small-0.small-headless.default.svc.cluster.local:8080/ping'',
          req_timeout = 5000, req_user_agent = ''PeeringServer/small-0''\<rparr>,
         \<lparr>req_id = 1, req_address = ''small-1.small-headless.default.svc.cluster.local:8080'',
          req_url = ''http://small-1.small-headless.default.svc.cluster.local:8080/ping'',
          req_timeout = 5000, req_user_agent = ''PeeringServer/small-0''\<rparr>,
         \<lparr>req_id = 2, req_address = ''small-2.small-headless.default.svc.cluster.local:8080'',
          req_url = ''http://small-2.small-headless.default.svc.cluster.local:8080/ping'',
          req_timeout = 5000, req_user_agent = ''PeeringServer/small-0''\<rparr>],
      rejections = [],
      server_logs =
        [ConfigLoaded ''/etc/peering/config.json'',
         PeersUpdated (Some (JNum 0)) (Some (JNum 3)),
         PingIntervalMs (Some (JNum 1000)), PingingPeers (Some (JNum 3)),
         PingIntervalSet (Some (JNum 1000)),
         WatchingConfig ''/etc/peering/config.json''],
      on_disk = Contents (JSON_stringify example_config), exit_status = None\<rparr>"
proof -
  have cfg: "example_config =
     JObj [(''peers'',
            JArr [JObj [(''host'', JStr ''small-0.small-headless.default.svc.cluster.local''), (''port'', JNum 8080)],
                  JObj [(''host'', JStr ''small-1.small-headless.default.svc.cluster.local''), (''port'', JNum 8080)],
                  JObj [(''host'', JStr ''small-2.small-headless.default.svc.cluster.local''), (''port'', JNum 8080)]]),
           (''pingInterval'', JNum 1000)]"
    by (simp add: example_config_def config_json_def peer_json_def example_peers)
  have num: "show_int 8080 = ''8080''"
    by (simp add: show_int_def show_nat.simps digit_char_def)
  show ?thesis
    unfolding example_server_def new_server_def
    apply (simp add: and_then_def loadConfig_def try_catch_def example_parse_facts(1))
    apply (simp add: cfg default_config_def member2_def evaluate_def and_then_def log_line_def
        startPinging_def pingAllPeers_def pingAllPeers_body_def pingPeer_def peer_address_def
        template_def setInterval_def watchConfig_def num server_name_def str_or_def)
    done
qed


lemma example_server_fields:
  "config example_server = example_config"
  "exit_status example_server = None"
  "timers example_server = [(3, Some (JNum 1000))]"
  "pingIntervalId example_server = Some 3"
  "map req_id (inflight example_server) = [0, 1, 2]"
  "map req_timeout (inflight example_server) = [5000, 5000, 5000]"
  "rejections example_server = []"
  "next_handle example_server = 4"
  "serverName example_server = ''small-0''"
  "configWatcher example_server"
  "configPath example_server = ''/etc/peering/config.json''"
  by (simp_all add: example_server_eq)


lemma peer_address_peer_json:
  "peer_address (peer_json pr) = Inr (host pr @ '':'' @ show_int (port pr))"
  by (simp add: peer_address_def peer_json_def template_def)

lemma sent_to_peer_json:
  "sent_to (map peer_json peers) = map (\<lambda>pr. host pr @ '':'' @ show_int (port pr)) peers"
  by (induction peers) (simp_all add: sent_to_def List.map_filter_simps peer_address_peer_json)

lemma example_config_peers:
  "get_prop example_config ''peers'' =
     Inr (Some (JArr (map peer_json (desired_peers ''default'' example_ps))))"
  by (simp add: example_config_def config_json_def)

section \<open>Facts about the example inputs\<close>

lemma example_facts:
  "faults example_world = []"
  "ps_namespace ''default'' zero_interval_ps = ''default''"
  "meta_name (ps_metadata zero_interval_ps) = ''small''"
  "ps_namespace ''default'' negative_replicas_ps = ''default''"
  "meta_name (ps_metadata negative_replicas_ps) = ''small''"
  "ps_namespace ''default'' example_ps = ''default''"
  "meta_name (ps_metadata example_ps) = ''small''"
  "map_of (peeringServers example_world) (''default'', ''small'') = Some example_ps"
  "statefulSets example_world (''default'', ''small'') = None"
  by (simp_all add: example_world_def empty_world_def zero_interval_ps_def negative_replicas_ps_def
      example_ps_def ps_namespace_def str_or_def)

lemma phase_of_frame [simp]:
  "phase_of (w\<lparr>logs := l\<rparr>) k = phase_of w k"
  "phase_of (w\<lparr>calls := c\<rparr>) k = phase_of w k"
  "phase_of (w\<lparr>faults := f\<rparr>) k = phase_of w k"
  by (simp_all add: phase_of_def)

lemma running_facts:
  "statefulSets running_world (''default'', ''small'') =
     Some ((createStatefulSet ''default'' example_ps)
              \<lparr>sts_status := Some \<lparr>observed_replicas = Some 3, observed_readyReplicas = Some 3\<rparr>\<rparr>)"
  "configMaps running_world (''default'', ''small-config'') =
     Some (createConfigMap ''default'' example_ps (desired_peers ''default'' example_ps))"
  "map_of (peeringServers running_world) (''default'', ''small'') =
     Some (example_ps\<lparr>ps_status := Some \<lparr>status_replicas = 3, status_readyReplicas = 3,
                                           phase = ''Running'', lastUpdated = 0\<rparr>\<rparr>)"
  "phase_of running_world (''default'', ''small'') = Some ''Running''"
  by (simp_all add: running_world_def phase_of_def)


lemma converge_conflict:
  "converge ''default'' example_ps
     (conflict_world\<lparr>logs := logs conflict_world @ [Reconciling ''default'' ''small'']\<rparr>) =
   (Inl (HttpError 409),
    conflict_world\<lparr>logs := logs conflict_world @ [Reconciling ''default'' ''small''],
                   calls := calls conflict_world @ [ReadConfigMap ''default'' ''small-config'',
                                                   ReplaceConfigMap ''default'' ''small-config''],
                   faults := []\<rparr>)"
  by (simp add: converge_def createOrUpdateConfigMap_def Let_def example_facts and_then_def
      try_catch_def readNamespacedConfigMap_def replaceNamespacedConfigMap_def request_def
      conflict_world_def running_facts throw_def)

lemma reconcile_forbidden:
  "reconcile ''default'' example_ps forbidden_world =
   (Inr (),
    forbidden_world
      \<lparr>faults := [],
       calls := [ReadConfigMap ''default'' ''small-config'', CreateConfigMap ''default'' ''small-config'',
                 ReadStatefulSet ''default'' ''small''],
       logs := [Reconciling ''default'' ''small'', ErrorReconciling ''default'' ''small'' (HttpError 403),
                ErrorUpdatingStatus ''default'' ''small'' (HttpError 404)]\<rparr>)"
  by (simp add: reconcile_def converge_def createOrUpdateConfigMap_def updateStatus_def Let_def
      example_facts and_then_def try_catch_def readNamespacedConfigMap_def
      createNamespacedConfigMap_def readNamespacedStatefulSet_def request_def logger_def
      forbidden_world_def example_world_def empty_world_def throw_def)


section \<open>The calls of the Watch Engine, step by step\<close>


lemma keeps_case_result:
  assumes "transp R" and "keeps R m" and "\<And>e. keeps R (f e)" and "\<And>x. keeps R (g x)"
  shows "keeps R (\<lambda>w. case m w of (Inl e, w1) \<Rightarrow> f e w1 | (Inr x, w1) \<Rightarrow> g x w1)"
proof (rule keepsI)
  fix w
  obtain r w' where m: "m w = (r, w')" by (cases "m w")
  have 1: "R w w'" using keepsD[OF assms(2), of w] m by simp
  show "R w (snd (case m w of (Inl e, w1) \<Rightarrow> f e w1 | (Inr x, w1) \<Rightarrow> g x w1))"
  proof (cases r)
    case (Inl e)
    have "R w' (snd (f e w'))" using keepsD[OF assms(3)] .
    with 1 have "R w (snd (f e w'))" using assms(1) by (meson transpD)
    then show ?thesis using m Inl by simp
  next
    case (Inr x)
    have "R w' (snd (g x w'))" using keepsD[OF assms(4)] .
    with 1 have "R w (snd (g x w'))" using assms(1) by (meson transpD)
    then show ?thesis using m Inr by simp
  qed
qed

lemma same_engine_trace_refl: "reflp same_engine_trace"
  by (simp add: reflp_def same_engine_trace_def)

lemma same_engine_trace_trans: "transp same_engine_trace"
  by (simp add: transp_def same_engine_trace_def)

lemma engine_logger: "keeps same_engine_trace (logger l)"
  by (rule keepsI) (simp add: logger_def same_engine_trace_def engine_trace_def)

lemma engine_request: "\<not> engine_call c \<Longrightarrow> keeps same_engine_trace (request c)"
  by (rule keepsI)
    (simp add: request_def Let_def same_engine_trace_def engine_trace_def
      split: list.splits option.splits)

lemma engine_prims:
  "keeps same_engine_trace (readNamespacedConfigMap nm ns)"
  "keeps same_engine_trace (replaceNamespacedConfigMap nm ns cm)"
  "keeps same_engine_trace (createNamespacedConfigMap ns cm)"
  "keeps same_engine_trace (readNamespacedStatefulSet nm ns)"
  "keeps same_engine_trace (replaceNamespacedStatefulSet nm ns sts)"
  "keeps same_engine_trace (createNamespacedStatefulSet ns sts)"
  "keeps same_engine_trace (patchNamespacedCustomObjectStatus ns nm st)"
  "keeps same_engine_trace (readNamespacedService nm ns)"
  "keeps same_engine_trace (replaceNamespacedService nm ns svc)"
  "keeps same_engine_trace (createNamespacedService ns svc)"
  "keeps same_engine_trace now"
  unfolding readNamespacedConfigMap_def replaceNamespacedConfigMap_def createNamespacedConfigMap_def
    readNamespacedStatefulSet_def replaceNamespacedStatefulSet_def createNamespacedStatefulSet_def
    patchNamespacedCustomObjectStatus_def readNamespacedService_def replaceNamespacedService_def
    createNamespacedService_def now_def Let_def
  by (intro keeps_and_then same_engine_trace_trans engine_request keepsI;
      simp add: same_engine_trace_def engine_trace_def split: option.splits)+

lemmas engine_rules =
  keeps_option keeps_try_catch keeps_and_then keeps_if keeps_throw keeps_return keeps_case_result
  same_engine_trace_trans same_engine_trace_refl engine_prims engine_logger

lemma engine_reconcile: "keeps same_engine_trace (reconcile opns ps)"
  unfolding reconcile_def converge_def updateStatus_def createOrUpdateConfigMap_def
    createOrUpdateService_def create_missing_service_def createOrUpdateStatefulSet_def Let_def
  by (intro engine_rules)

lemma engine_reconcile_each: "keeps same_engine_trace (reconcile_each opns items)"
  by (induction items) (simp_all add: engine_rules engine_reconcile)

lemma engine_handleEvent: "keeps same_engine_trace (handleEvent opns type obj)"
  unfolding handleEvent_def Let_def
  by (intro engine_rules engine_reconcile)

lemma engine_deliver: "keeps same_engine_trace (deliver opns evs)"
  by (induction evs) (simp_all add: engine_rules engine_handleEvent)

lemma sync_trace:
  "engine_trace (snd (syncExistingResources opns w)) = engine_trace w @ [ListPeeringServers opns]"
proof -
  define w0 where "w0 = w\<lparr>logs := logs w @ [SyncingExisting]\<rparr>"
  obtain r w1 where rq: "request (ListPeeringServers opns) w0 = (r, w1)"
    by (cases "request (ListPeeringServers opns) w0")
  have t1: "engine_trace w1 = engine_trace w @ [ListPeeringServers opns]"
    using rq by (auto simp: request_def Let_def engine_trace_def w0_def split: list.splits option.splits)
  show ?thesis
  proof (cases r)
    case (Inl e)
    then show ?thesis
      using rq t1
      by (simp add: syncExistingResources_def listNamespacedCustomObject_def and_then_def
          try_catch_def logger_def w0_def[symmetric] engine_trace_def)
  next
    case (Inr u)
    let ?items = "map snd (filter (\<lambda>kv. fst (fst kv) = opns) (peeringServers w1))"
    let ?w2 = "w1\<lparr>logs := logs w1 @ [FoundExisting (length ?items)]\<rparr>"
    obtain r3 w3 where re: "reconcile_each opns ?items ?w2 = (r3, w3)"
      by (cases "reconcile_each opns ?items ?w2")
    have "engine_trace w3 = engine_trace ?w2"
      using keepsD[OF engine_reconcile_each, of ?w2 opns ?items] re
      by (simp add: same_engine_trace_def)
    then have t3: "engine_trace w3 = engine_trace w @ [ListPeeringServers opns]"
      using t1 by (simp add: engine_trace_def)
    show ?thesis
      using rq Inr re t3
      by (cases r3)
        (simp_all add: syncExistingResources_def listNamespacedCustomObject_def and_then_def
          try_catch_def logger_def w0_def[symmetric] engine_trace_def)
  qed
qed



lemma watch_trace:
  "engine_trace (snd (watch opns path session w)) = engine_trace w @ [OpenWatch path]"
proof -
  let ?w1 = "w\<lparr>calls := calls w @ [OpenWatch path]\<rparr>"
  obtain r2 w2 where d: "deliver opns (delivered session) ?w1 = (r2, w2)"
    by (cases "deliver opns (delivered session) ?w1")
  have "engine_trace w2 = engine_trace ?w1"
    using keepsD[OF engine_deliver, of ?w1 opns "delivered session"] d
    by (simp add: same_engine_trace_def)
  then have t2: "engine_trace w2 = engine_trace w @ [OpenWatch path]"
    by (simp add: engine_trace_def)
  show ?thesis
    using d t2
    by (cases r2; cases "stream_error session"; cases "ended session")
      (simp_all add: watch_def and_then_def return_def throw_def logger_def engine_trace_def)
qed

lemma watch_outcome:
  "(\<exists>e. fst (watch opns path session w) = Inl e) \<longleftrightarrow> (\<exists>e. ended session = WatchThrew e) \<or>
     (\<exists>e. fst (deliver opns (delivered session) (w\<lparr>calls := calls w @ [OpenWatch path]\<rparr>)) = Inl e)"
  by (cases "deliver opns (delivered session) (w\<lparr>calls := calls w @ [OpenWatch path]\<rparr>)";
      cases "stream_error session"; cases "ended session")
    (auto simp: watch_def and_then_def return_def throw_def logger_def split: sum.splits)

lemma reconcile_each_returns: "fst (reconcile_each opns items w) = Inr ()"
proof (induction items arbitrary: w)
  case Nil
  then show ?case by (simp add: return_def)
next
  case (Cons item items)
  obtain r w1 where rc: "reconcile opns item w = (r, w1)" by (cases "reconcile opns item w")
  then have "r = Inr ()" using reconcile_returns[of opns item w] by simp
  then show ?case using rc Cons.IH[of w1] by (simp add: and_then_def)
qed

lemma handleEvent_returns: "fst (handleEvent opns type obj w) = Inr ()"
  using reconcile_returns[of opns obj]
  by (simp add: handleEvent_def Let_def and_then_def logger_def return_def)

lemma deliver_returns: "fst (deliver opns evs w) = Inr ()"
proof (induction evs arbitrary: w)
  case Nil
  then show ?case by (simp add: return_def)
next
  case (Cons ev evs)
  obtain r w1 where h: "handleEvent opns (fst ev) (snd ev) w = (r, w1)"
    by (cases "handleEvent opns (fst ev) (snd ev) w")
  then have "r = Inr ()" using handleEvent_returns[of opns "fst ev" "snd ev" w] by simp
  then show ?case using h Cons.IH[of w1] by (simp add: and_then_def)
qed

lemma watch_step_trace:
  shows "engine_trace (snd (try_catch (watch opns path session) (\<lambda>error.
          and_then (logger (WatchCrashed error)) (\<lambda>_.
          and_then (logger RestartingWatch) (\<lambda>_.
          sleep 5000))) w)) = engine_trace w @ session_calls path session"
    and "fst (try_catch (watch opns path session) (\<lambda>error.
          and_then (logger (WatchCrashed error)) (\<lambda>_.
          and_then (logger RestartingWatch) (\<lambda>_.
          sleep 5000))) w) = Inr ()"
proof -
  obtain r w1 where wt: "watch opns path session w = (r, w1)"
    by (cases "watch opns path session w")
  have t: "engine_trace w1 = engine_trace w @ [OpenWatch path]"
    using watch_trace[of opns path session w] wt by simp
  have o: "(\<exists>e. r = Inl e) \<longleftrightarrow> (\<exists>e. ended session = WatchThrew e)"
    using watch_outcome[of opns path session w] wt
      deliver_returns[of opns "delivered session" "w\<lparr>calls := calls w @ [OpenWatch path]\<rparr>"]
    by simp
  show "engine_trace (snd (try_catch (watch opns path session) (\<lambda>error.
          and_then (logger (WatchCrashed error)) (\<lambda>_.
          and_then (logger RestartingWatch) (\<lambda>_.
          sleep 5000))) w)) = engine_trace w @ session_calls path session"
    using wt t o
    by (cases r; cases "ended session")
      (auto simp: try_catch_def and_then_def logger_def sleep_def session_calls_def engine_trace_def)
  show "fst (try_catch (watch opns path session) (\<lambda>error.
          and_then (logger (WatchCrashed error)) (\<lambda>_.
          and_then (logger RestartingWatch) (\<lambda>_.
          sleep 5000))) w) = Inr ()"
    using wt by (cases r) (simp_all add: try_catch_def and_then_def logger_def sleep_def)
qed

lemma watch_loop_trace:
  "engine_trace (snd (watch_loop opns path sessions w)) =
     engine_trace w @ concat (map (session_calls path) sessions)"
proof (induction sessions arbitrary: w)
  case Nil
  then show ?case by (simp add: return_def)
next
  case (Cons session rest)
  let ?step = "try_catch (watch opns path session) (\<lambda>error.
          and_then (logger (WatchCrashed error)) (\<lambda>_.
          and_then (logger RestartingWatch) (\<lambda>_.
          sleep 5000)))"
  obtain r w1 where st: "?step w = (r, w1)" by (cases "?step w")
  have r: "r = Inr ()" using watch_step_trace(2)[of opns path session w] st by simp
  have t: "engine_trace w1 = engine_trace w @ session_calls path session"
    using watch_step_trace(1)[of opns path session w] st by simp
  show ?case
    using st r t Cons.IH[of w1] by (simp add: and_then_def)
qed


section \<open>Claims\<close>

subsection \<open>C1: the published peer list\<close>

text \<open>The text that \<open>JSON.stringify(config, null, 2)\<close> gives for a peer list and an interval.\<close>

lemma stringify_config:
  \<open>JSON_stringify (config_json peers interval) =
     ''{\<newline>  "peers": ''
     @ (if peers = [] then ''[]''
        else ''[\<newline>    ''
             @ join '',\<newline>    ''
                 (map (\<lambda>pr. ''{\<newline>      "host": '' @ quote (host pr)
                             @ '',\<newline>      "port": '' @ show_int (port pr)
                             @ ''\<newline>    }'') peers)
             @ ''\<newline>  ]'')
     @ '',\<newline>  "pingInterval": '' @ show_int interval @ ''\<newline>}''\<close>
  by (simp add: JSON_stringify_def config_json_def peer_json_def newline_indent_def
      quote_def quote_char_def comp_def numeral_eq_Suc)

text \<open>
  C1. Take a PeeringServer with name \<open>n\<close> and \<open>N \<ge> 0\<close> replicas. Let \<open>ns\<close> be its
  \<open>metadata.namespace\<close>, or the operator's namespace when it has none (or an empty one),
  and \<open>p\<close> its \<open>spec.port\<close>, or 8080 when it declares none (or 0). A reconcile that the
  store serves leaves, in namespace \<open>ns\<close>, a ConfigMap named \<open>n-config\<close> whose
  \<open>config.json\<close> is the JSON text, indented by two spaces, of an object with two members:
  \<open>peers\<close>, the array of the \<open>N\<close> objects with \<open>host\<close>
  \<open>n-i.n-headless.ns.svc.cluster.local\<close> (as a JSON string) and \<open>port\<close> \<open>p\<close>, for
  \<open>i = 0..N-1\<close> in that order, and \<open>pingInterval\<close>, that of the spec.
\<close>

theorem reconcile_publishes_peer_list:
  assumes \<open>meta_name (ps_metadata ps) = n\<close>
    and \<open>ns = (case meta_namespace (ps_metadata ps) of
                 None \<Rightarrow> opns | Some m \<Rightarrow> if m = [] then opns else m)\<close>
    and \<open>spec_replicas (ps_spec ps) = N\<close>
    and \<open>p = (case spec_port (ps_spec ps) of
                None \<Rightarrow> 8080 | Some q \<Rightarrow> if q = 0 then 8080 else q)\<close>
    and \<open>0 \<le> N\<close>
    and \<open>faults w = []\<close>
  shows \<open>\<exists>cm. configMaps (snd (reconcile opns ps w)) (ns, n @ ''-config'') = Some cm
            \<and> meta_name (cm_metadata cm) = n @ ''-config''
            \<and> cm_data cm =
                [(''config.json'',
                  ''{\<newline>  "peers": ''
                  @ (if N = 0 then ''[]''
                     else ''[\<newline>    ''
                          @ join '',\<newline>    ''
                              (map (\<lambda>i. ''{\<newline>      "host": ''
                                         @ quote (n @ ''-'' @ show_nat i @ ''.'' @ n
                                                  @ ''-headless.'' @ ns
                                                  @ ''.svc.cluster.local'')
                                         @ '',\<newline>      "port": '' @ show_int p
                                         @ ''\<newline>    }'')
                                 [0..<nat N])
                          @ ''\<newline>  ]'')
                  @ '',\<newline>  "pingInterval": ''
                  @ show_int (spec_pingInterval (ps_spec ps)) @ ''\<newline>}'')]\<close>
proof -
  have ns: "ps_namespace opns ps = ns"
    using assms(2) by (simp add: ps_namespace_def str_or_def)
  have p: "ps_port ps = p"
    using assms(4) by (simp add: ps_port_def num_or_def)
  have peers: "desired_peers opns ps =
      map (\<lambda>i. \<lparr>host = n @ ''-'' @ show_nat i @ ''.'' @ n @ ''-headless.'' @ ns
                        @ ''.svc.cluster.local'', port = p\<rparr>) [0..<nat N]"
    using assms(1,3,5) ns p generatePeerList_loop_eq[of 0 n ns N p "[]"]
    by (simp add: desired_peers_def generatePeerList_def)
  have none: "(desired_peers opns ps = []) = (N = 0)"
    using assms(5) by (simp add: peers)
  have cm: "configMaps (snd (reconcile opns ps w)) (ns, n @ ''-config'') =
      Some (createConfigMap opns ps (desired_peers opns ps))"
    using reconcile_served(2)[OF assms(6), of opns ps] assms(1) ns by simp
  show ?thesis
    unfolding cm using assms(1)
    by (simp add: createConfigMap_def owned_meta_def Let_def stringify_config none)
      (simp add: peers comp_def)
qed

text \<open>
  The theorem at \<open>mesh\<close> in \<open>prod\<close>, two replicas on port 9090, reconciled by an operator
  that runs in \<open>default\<close>; and at \<open>solo\<close>, one replica, which declares no namespace and
  no port.
\<close>

theorem reconcile_publishes_peer_list_witness:
  \<open>meta_name (ps_metadata mesh_ps) = ''mesh''
   \<and> meta_namespace (ps_metadata mesh_ps) = Some ''prod''
   \<and> spec_replicas (ps_spec mesh_ps) = 2
   \<and> spec_port (ps_spec mesh_ps) = Some 9090
   \<and> faults empty_world = []
   \<and> (\<exists>cm. configMaps (snd (reconcile ''default'' mesh_ps empty_world))
              (''prod'', ''mesh-config'') = Some cm
          \<and> meta_name (cm_metadata cm) = ''mesh-config''
          \<and> cm_data cm =
               [(''config.json'',
                 ''{\<newline>''
                 @ ''  "peers": [\<newline>''
                 @ ''    {\<newline>''
                 @ ''      "host": "mesh-0.mesh-headless.prod.svc.cluster.local",\<newline>''
                 @ ''      "port": 9090\<newline>''
                 @ ''    },\<newline>''
                 @ ''    {\<newline>''
                 @ ''      "host": "mesh-1.mesh-headless.prod.svc.cluster.local",\<newline>''
                 @ ''      "port": 9090\<newline>''
                 @ ''    }\<newline>''
                 @ ''  ],\<newline>''
                 @ ''  "pingInterval": 30000\<newline>''
                 @ ''}'')])
   \<and> meta_name (ps_metadata bare_ps) = ''solo''
   \<and> meta_namespace (ps_metadata bare_ps) = None
   \<and> spec_replicas (ps_spec bare_ps) = 1
   \<and> spec_port (ps_spec bare_ps) = None
   \<and> (\<exists>cm. configMaps (snd (reconcile ''default'' bare_ps empty_world))
              (''default'', ''solo-config'') = Some cm
          \<and> meta_name (cm_metadata cm) = ''solo-config''
          \<and> cm_data cm =
               [(''config.json'',
                 ''{\<newline>''
                 @ ''  "peers": [\<newline>''
                 @ ''    {\<newline>''
                 @ ''      "host": "solo-0.solo-headless.default.svc.cluster.local",\<newline>''
                 @ ''      "port": 8080\<newline>''
                 @ ''    }\<newline>''
                 @ ''  ],\<newline>''
                 @ ''  "pingInterval": 60000\<newline>''
                 @ ''}'')])\<close>
proof -
  have m: "meta_name (ps_metadata mesh_ps) = ''mesh''"
    "''prod'' = (case meta_namespace (ps_metadata mesh_ps) of
                  None \<Rightarrow> ''default'' | Some m \<Rightarrow> if m = [] then ''default'' else m)"
    "spec_replicas (ps_spec mesh_ps) = 2"
    "9090 = (case spec_port (ps_spec mesh_ps) of
               None \<Rightarrow> 8080 | Some q \<Rightarrow> if q = 0 then 8080 else q)"
    "(0::int) \<le> 2" "faults empty_world = []"
    by (simp_all add: mesh_ps_def empty_world_def)
  have b: "meta_name (ps_metadata bare_ps) = ''solo''"
    "''default'' = (case meta_namespace (ps_metadata bare_ps) of
                     None \<Rightarrow> ''default'' | Some m \<Rightarrow> if m = [] then ''default'' else m)"
    "spec_replicas (ps_spec bare_ps) = 1"
    "8080 = (case spec_port (ps_spec bare_ps) of
               None \<Rightarrow> 8080 | Some q \<Rightarrow> if q = 0 then 8080 else q)"
    "(0::int) \<le> 1" "faults empty_world = []"
    by (simp_all add: bare_ps_def empty_world_def)
  have fields: "meta_namespace (ps_metadata mesh_ps) = Some ''prod''"
    "spec_port (ps_spec mesh_ps) = Some 9090"
    "spec_pingInterval (ps_spec mesh_ps) = 30000"
    "meta_namespace (ps_metadata bare_ps) = None"
    "spec_port (ps_spec bare_ps) = None"
    "spec_pingInterval (ps_spec bare_ps) = 60000"
    by (simp_all add: mesh_ps_def bare_ps_def)
  have up: "[0..<(2::nat)] = [0, 1]" "[0..<Suc 0] = [0]" by (simp_all add: upt_rec)
  have digits: "show_nat 0 = ''0''" "show_nat (Suc 0) = ''1''"
    by (simp_all add: show_nat.simps digit_char_def)
  have numbers: "show_int 9090 = ''9090''" "show_int 8080 = ''8080''"
    "show_int 30000 = ''30000''" "show_int 60000 = ''60000''"
    by (simp_all add: show_int_def show_nat.simps digit_char_def)
  show ?thesis
    using m(1,3,6) b(1,3) fields(1,2,4,5)
      reconcile_publishes_peer_list[OF m] reconcile_publishes_peer_list[OF b]
    by (simp add: up digits numbers fields(3,6) quote_def quote_char_def)
qed

subsection \<open>C2: idempotence\<close>

text \<open>
  C2. After a reconcile that the store serves, any number of further reconciles of the same
  PeeringServer, with nothing else writing to the store, leave the ConfigMaps, the Services
  and the StatefulSets exactly as that one call left them, and the custom resources as it
  left them up to the \<open>lastUpdated\<close> of the status. Fields that the server fills in are
  not part of the objects of the model.
\<close>

theorem reconcile_idempotent:
  assumes "faults w = []"
  shows "configMaps (reconcile_again opns ps ts (snd (reconcile opns ps w))) =
           configMaps (snd (reconcile opns ps w))
       \<and> services (reconcile_again opns ps ts (snd (reconcile opns ps w))) =
           services (snd (reconcile opns ps w))
       \<and> statefulSets (reconcile_again opns ps ts (snd (reconcile opns ps w))) =
           statefulSets (snd (reconcile opns ps w))
       \<and> statuses (reconcile_again opns ps ts (snd (reconcile opns ps w))) =
           statuses (snd (reconcile opns ps w))"
proof -
  have "settled opns ps v \<Longrightarrow>
        configMaps (reconcile_again opns ps ts v) = configMaps v
      \<and> services (reconcile_again opns ps ts v) = services v
      \<and> statefulSets (reconcile_again opns ps ts v) = statefulSets v
      \<and> statuses (reconcile_again opns ps ts v) = statuses v" for v
  proof (induction ts arbitrary: v)
    case Nil
    then show ?case by simp
  next
    case (Cons t ts)
    from settled_step[OF Cons.prems, of t] Cons.IH[of "snd (reconcile opns ps (v\<lparr>clock := t\<rparr>))"]
    show ?case by simp
  qed
  then show ?thesis using settled_after_served[OF assms] by blast
qed

theorem reconcile_idempotent_witness:
  "faults example_world = []
   \<and> configMaps (reconcile_again ''default'' example_ps [7, 9]
                   (snd (reconcile ''default'' example_ps example_world))) =
       configMaps (snd (reconcile ''default'' example_ps example_world))
   \<and> services (reconcile_again ''default'' example_ps [7, 9]
                   (snd (reconcile ''default'' example_ps example_world))) =
       services (snd (reconcile ''default'' example_ps example_world))
   \<and> statefulSets (reconcile_again ''default'' example_ps [7, 9]
                   (snd (reconcile ''default'' example_ps example_world))) =
       statefulSets (snd (reconcile ''default'' example_ps example_world))
   \<and> statuses (reconcile_again ''default'' example_ps [7, 9]
                   (snd (reconcile ''default'' example_ps example_world))) =
       statuses (snd (reconcile ''default'' example_ps example_world))"
proof -
  have h: "faults example_world = []"
    by (simp add: example_world_def empty_world_def)
  show ?thesis
    using h reconcile_idempotent[OF h, of "''default''" example_ps "[7, 9]"] by simp
qed

subsection \<open>C3: the clusterIP of a Service\<close>

text \<open>
  C3. Whatever the store answers, a Service that exists keeps its \<open>clusterIP\<close> through
  any sequence of reconciles (of any PeeringServers): the only replace of a Service that the
  operator sends carries the \<open>clusterIP\<close> it has just read, and a create never overwrites.
  The store of the model would write any \<open>clusterIP\<close> it is sent.
\<close>

theorem clusterIP_never_changes:
  assumes "services w k = Some svc"
  shows "\<exists>svc'. services (reconcile_all opns pss w) k = Some svc'
              \<and> clusterIP (svc_spec svc') = clusterIP (svc_spec svc)"
  using assms
proof (induction pss arbitrary: w svc)
  case Nil
  then show ?case by simp
next
  case (Cons ps pss)
  from keepsD[OF reconcile_keeps, of w opns ps] Cons.prems
  obtain svc1 where 1: "services (snd (reconcile opns ps w)) k = Some svc1"
    and 2: "clusterIP (svc_spec svc1) = clusterIP (svc_spec svc)"
    unfolding clusterIPs_kept_def by blast
  from Cons.IH[OF 1] 2 show ?case by simp
qed

text \<open>
  The theorem for a Service with an address of its own, when the replace fails and when
  it is served.
\<close>

theorem clusterIP_never_changes_witness:
  "services (running_world\<lparr>services := [(''default'', ''small-headless'') \<mapsto>
       (createHeadlessService ''default'' example_ps)\<lparr>svc_spec :=
          (svc_spec (createHeadlessService ''default'' example_ps))\<lparr>clusterIP := Some ''10.0.0.7''\<rparr>\<rparr>],
       faults := [None, None, None, Some (HttpError 500)]\<rparr>) (''default'', ''small-headless'') =
     Some ((createHeadlessService ''default'' example_ps)\<lparr>svc_spec :=
          (svc_spec (createHeadlessService ''default'' example_ps))\<lparr>clusterIP := Some ''10.0.0.7''\<rparr>\<rparr>)
   \<and> (\<exists>svc'. services (reconcile_all ''default'' [example_ps, zero_interval_ps]
         (running_world\<lparr>services := [(''default'', ''small-headless'') \<mapsto>
            (createHeadlessService ''default'' example_ps)\<lparr>svc_spec :=
               (svc_spec (createHeadlessService ''default'' example_ps))\<lparr>clusterIP := Some ''10.0.0.7''\<rparr>\<rparr>],
            faults := [None, None, None, Some (HttpError 500)]\<rparr>)) (''default'', ''small-headless'') = Some svc'
        \<and> clusterIP (svc_spec svc') = Some ''10.0.0.7'')"
proof -
  let ?svc = "(createHeadlessService ''default'' example_ps)\<lparr>svc_spec :=
          (svc_spec (createHeadlessService ''default'' example_ps))\<lparr>clusterIP := Some ''10.0.0.7''\<rparr>\<rparr>"
  let ?w = "running_world\<lparr>services := [(''default'', ''small-headless'') \<mapsto> ?svc],
       faults := [None, None, None, Some (HttpError 500)]\<rparr>"
  have h: "services ?w (''default'', ''small-headless'') = Some ?svc"
    by simp
  show ?thesis
    using h clusterIP_never_changes[OF h, of "''default''" "[example_ps, zero_interval_ps]"]
    by simp
qed

subsection \<open>C4: specs that the data model calls invalid\<close>

text \<open>
  C4 says that a spec with \<open>replicas < 0\<close> or \<open>pingInterval \<le> 0\<close> is rejected: phase
  \<open>Failed\<close>, no owned object created or changed. The reconciler has no validation step.
  With \<open>pingInterval = 0\<close> on a store that holds only the PeeringServer, the StatefulSet
  is created and the phase is \<open>Running\<close>.
\<close>

theorem invalid_spec_counterexample:
  "spec_pingInterval (ps_spec zero_interval_ps) \<le> 0
   \<and> statefulSets example_world (''default'', ''small'') = None
   \<and> statefulSets (snd (reconcile ''default'' zero_interval_ps example_world)) (''default'', ''small'') =
       Some (createStatefulSet ''default'' zero_interval_ps)
   \<and> phase_of (snd (reconcile ''default'' zero_interval_ps example_world)) (''default'', ''small'') =
       Some ''Running''"
  using reconcile_served(4,5)[OF example_facts(1), of "''default''" zero_interval_ps]
  by (simp add: example_facts phase_of_def map_of_put written_statefulSet_def written_status_def)
    (simp add: zero_interval_ps_def example_ps_def)

text \<open>
  C4 as amended. For a spec with \<open>replicas < 0\<close> or \<open>pingInterval \<le> 0\<close>, a reconcile
  that the store serves writes the three owned objects as for any other spec (the peer list
  is empty when \<open>replicas < 0\<close>, the StatefulSet carries the replicas of the spec) and
  sets the phase to \<open>Running\<close>. The store of the model accepts every object.
\<close>

theorem reconcile_does_not_validate:
  assumes "spec_replicas (ps_spec ps) < 0 \<or> spec_pingInterval (ps_spec ps) \<le> 0"
    and "faults w = []"
    and "map_of (peeringServers w) (ps_namespace opns ps, meta_name (ps_metadata ps)) = Some p0"
  shows "fst (reconcile opns ps w) = Inr ()
       \<and> configMaps (snd (reconcile opns ps w))
            (ps_namespace opns ps, meta_name (ps_metadata ps) @ ''-config'') =
           Some (createConfigMap opns ps (desired_peers opns ps))
       \<and> (spec_replicas (ps_spec ps) < 0 \<longrightarrow> desired_peers opns ps = [])
       \<and> services (snd (reconcile opns ps w))
            (ps_namespace opns ps, meta_name (ps_metadata ps) @ ''-headless'') =
           Some (written_service opns ps w)
       \<and> statefulSets (snd (reconcile opns ps w))
            (ps_namespace opns ps, meta_name (ps_metadata ps)) =
           Some (written_statefulSet opns ps w)
       \<and> sts_replicas (sts_spec (written_statefulSet opns ps w)) = spec_replicas (ps_spec ps)
       \<and> phase_of (snd (reconcile opns ps w)) (ps_namespace opns ps, meta_name (ps_metadata ps)) =
           Some ''Running''"
proof -
  note r = reconcile_served[OF assms(2), of opns ps]
  have "sts_replicas (sts_spec (written_statefulSet opns ps w)) = spec_replicas (ps_spec ps)"
    by (simp add: written_statefulSet_def createStatefulSet_def Let_def split: option.splits)
  moreover have "spec_replicas (ps_spec ps) < 0 \<longrightarrow> desired_peers opns ps = []"
    by (simp add: desired_peers_def generatePeerList_nonpos)
  moreover have "phase_of (snd (reconcile opns ps w)) (ps_namespace opns ps, meta_name (ps_metadata ps)) =
           Some ''Running''"
    using r(5) assms(3) by (simp add: phase_of_def map_of_put written_status_def Let_def)
  ultimately show ?thesis using r(1-4) by simp
qed

theorem reconcile_does_not_validate_witness:
  "(spec_replicas (ps_spec negative_replicas_ps) < 0 \<or> spec_pingInterval (ps_spec negative_replicas_ps) \<le> 0)
   \<and> faults example_world = []
   \<and> map_of (peeringServers example_world) (''default'', ''small'') = Some example_ps
   \<and> fst (reconcile ''default'' negative_replicas_ps example_world) = Inr ()
   \<and> configMaps (snd (reconcile ''default'' negative_replicas_ps example_world)) (''default'', ''small-config'') =
       Some (createConfigMap ''default'' negative_replicas_ps [])
   \<and> statefulSets (snd (reconcile ''default'' negative_replicas_ps example_world)) (''default'', ''small'') =
       Some (createStatefulSet ''default'' negative_replicas_ps)
   \<and> sts_replicas (sts_spec (createStatefulSet ''default'' negative_replicas_ps)) = - 1
   \<and> phase_of (snd (reconcile ''default'' negative_replicas_ps example_world)) (''default'', ''small'') =
       Some ''Running''"
proof -
  have h1: "spec_replicas (ps_spec negative_replicas_ps) < 0 \<or> spec_pingInterval (ps_spec negative_replicas_ps) \<le> 0"
    by (simp add: negative_replicas_ps_def)
  have h3: "map_of (peeringServers example_world)
      (ps_namespace ''default'' negative_replicas_ps, meta_name (ps_metadata negative_replicas_ps)) = Some example_ps"
    by (simp add: example_facts)
  have neg: "spec_replicas (ps_spec negative_replicas_ps) = - 1"
    by (simp add: negative_replicas_ps_def)
  show ?thesis
    using h1 reconcile_does_not_validate[OF h1 example_facts(1) h3]
    by (simp add: example_facts written_statefulSet_def neg)
qed



subsection \<open>C5: the phase after a reconcile\<close>

text \<open>
  C5 says that a 409 from the store does not set the phase to \<open>Failed\<close>. The reconciler
  treats every error alike: with all objects in place and phase \<open>Running\<close>, a replace of
  the ConfigMap answered with 409 leaves the phase \<open>Failed\<close>.
\<close>

theorem conflict_counterexample:
  "fst (converge ''default'' example_ps
          (conflict_world\<lparr>logs := logs conflict_world @ [Reconciling ''default'' ''small'']\<rparr>)) =
     Inl (HttpError 409)
   \<and> phase_of conflict_world (''default'', ''small'') = Some ''Running''
   \<and> phase_of (snd (reconcile ''default'' example_ps conflict_world)) (''default'', ''small'') =
       Some ''Failed''"
proof -
  let ?w1 = "conflict_world\<lparr>logs := logs conflict_world @ [Reconciling ''default'' ''small''],
                   calls := calls conflict_world @ [ReadConfigMap ''default'' ''small-config'',
                                                   ReplaceConfigMap ''default'' ''small-config''],
                   faults := []\<rparr>"
  let ?w2 = "?w1\<lparr>logs := logs ?w1 @ [ErrorReconciling ''default'' ''small'' (HttpError 409)]\<rparr>"
  have rec: "reconcile ''default'' example_ps conflict_world = updateStatus ''default'' example_ps ''Failed'' ?w2"
    using reconcile_on_error[of "''default''" example_ps conflict_world "HttpError 409" ?w1]
      converge_conflict by (simp add: example_facts)
  have "served 2 ?w2" by (simp add: served_def)
  from updateStatus_patches[OF this, of "''default''" example_ps _ _ "''Failed''"]
  have "phase_of (snd (updateStatus ''default'' example_ps ''Failed'' ?w2)) (''default'', ''small'') = Some ''Failed''"
    by (simp add: example_facts conflict_world_def running_facts phase_of_def written_status_def)
  then show ?thesis
    by (simp add: rec converge_conflict) (simp add: conflict_world_def running_facts)
qed

text \<open>
  C5 as amended. After a reconcile whose status update goes through (its two calls are
  served, the StatefulSet and the PeeringServer are in the store), the phase is \<open>Failed\<close>
  if and only if converging the owned objects raised an error, of any kind, a 409 included,
  and \<open>Running\<close> if and only if it raised none.
\<close>

theorem phase_after_reconcile:
  assumes "converge opns ps
             (w\<lparr>logs := logs w @ [Reconciling (ps_namespace opns ps) (meta_name (ps_metadata ps))]\<rparr>) =
           (res, w1)"
    and "served 2 w1"
    and "statefulSets w1 (ps_namespace opns ps, meta_name (ps_metadata ps)) = Some sts"
    and "map_of (peeringServers w1) (ps_namespace opns ps, meta_name (ps_metadata ps)) = Some p0"
  shows "(phase_of (snd (reconcile opns ps w)) (ps_namespace opns ps, meta_name (ps_metadata ps)) =
            Some ''Failed'' \<longleftrightarrow> (\<exists>e. res = Inl e))
       \<and> (phase_of (snd (reconcile opns ps w)) (ps_namespace opns ps, meta_name (ps_metadata ps)) =
            Some ''Running'' \<longleftrightarrow> res = Inr ())"
proof (cases res)
  case (Inl e)
  let ?w2 = "w1\<lparr>logs := logs w1 @ [ErrorReconciling (ps_namespace opns ps) (meta_name (ps_metadata ps)) e]\<rparr>"
  have s: "served 2 ?w2" using assms(2) by (simp add: served_def)
  have "phase_of (snd (updateStatus opns ps ''Failed'' ?w2))
          (ps_namespace opns ps, meta_name (ps_metadata ps)) = Some ''Failed''"
    using updateStatus_patches[OF s, of opns ps sts p0 "''Failed''"] assms(3,4)
    by (simp add: phase_of_def written_status_def Let_def)
  then show ?thesis
    using reconcile_on_error[of opns ps w e w1] assms(1) Inl by simp
next
  case (Inr u)
  have "phase_of (snd (updateStatus opns ps ''Running'' w1))
          (ps_namespace opns ps, meta_name (ps_metadata ps)) = Some ''Running''"
    using updateStatus_patches[OF assms(2), of opns ps sts p0 "''Running''"] assms(3,4)
    by (simp add: phase_of_def written_status_def Let_def)
  then show ?thesis
    using reconcile_on_success[of opns ps w u w1] assms(1) Inr by simp
qed


text \<open>The amended claim at the conflict above.\<close>

theorem phase_after_reconcile_witness:
  "converge ''default'' example_ps
     (conflict_world\<lparr>logs := logs conflict_world @ [Reconciling ''default'' ''small'']\<rparr>) =
   (Inl (HttpError 409),
    conflict_world\<lparr>logs := logs conflict_world @ [Reconciling ''default'' ''small''],
                   calls := calls conflict_world @ [ReadConfigMap ''default'' ''small-config'',
                                                   ReplaceConfigMap ''default'' ''small-config''],
                   faults := []\<rparr>)
   \<and> served 2 (conflict_world\<lparr>logs := logs conflict_world @ [Reconciling ''default'' ''small''],
                   calls := calls conflict_world @ [ReadConfigMap ''default'' ''small-config'',
                                                   ReplaceConfigMap ''default'' ''small-config''],
                   faults := []\<rparr>)
   \<and> statefulSets conflict_world (''default'', ''small'') \<noteq> None
   \<and> map_of (peeringServers conflict_world) (''default'', ''small'') \<noteq> None
   \<and> phase_of (snd (reconcile ''default'' example_ps conflict_world)) (''default'', ''small'') =
       Some ''Failed''
   \<and> phase_of (snd (reconcile ''default'' example_ps conflict_world)) (''default'', ''small'') \<noteq>
       Some ''Running''"
proof -
  let ?w1 = "conflict_world\<lparr>logs := logs conflict_world @ [Reconciling ''default'' ''small''],
                   calls := calls conflict_world @ [ReadConfigMap ''default'' ''small-config'',
                                                   ReplaceConfigMap ''default'' ''small-config''],
                   faults := []\<rparr>"
  have c: "converge ''default'' example_ps
     (conflict_world\<lparr>logs := logs conflict_world @
        [Reconciling (ps_namespace ''default'' example_ps) (meta_name (ps_metadata example_ps))]\<rparr>) =
     (Inl (HttpError 409), ?w1)"
    using converge_conflict by (simp add: example_facts)
  have s: "served 2 ?w1" by (simp add: served_def)
  have sts: "statefulSets ?w1 (ps_namespace ''default'' example_ps, meta_name (ps_metadata example_ps)) =
     Some ((createStatefulSet ''default'' example_ps)
              \<lparr>sts_status := Some \<lparr>observed_replicas = Some 3, observed_readyReplicas = Some 3\<rparr>\<rparr>)"
    by (simp add: example_facts conflict_world_def running_facts)
  have p: "map_of (peeringServers ?w1) (ps_namespace ''default'' example_ps, meta_name (ps_metadata example_ps)) =
     Some (example_ps\<lparr>ps_status := Some \<lparr>status_replicas = 3, status_readyReplicas = 3,
                                           phase = ''Running'', lastUpdated = 0\<rparr>\<rparr>)"
    by (simp add: example_facts conflict_world_def running_facts)
  show ?thesis
    using phase_after_reconcile[OF c s sts p] s converge_conflict
    by (simp add: example_facts) (simp add: conflict_world_def running_facts)
qed



subsection \<open>C6: errors and the status patch\<close>

text \<open>
  How \<open>reconcile\<close> handles errors. On any error while converging the owned objects it
  logs the error and runs the status update with phase \<open>Failed\<close>; otherwise it runs it
  with \<open>Running\<close> and logs success, whatever the status update does. The status update
  never throws: either it patches the status (which it does whenever its two calls are
  served and the StatefulSet and the PeeringServer are in the store), or it logs its own
  error and leaves the custom resources as they were. So \<open>reconcile\<close> never throws
  either: a failure of the status patch is only logged.
\<close>

lemma reconcile_error_handling:
  "reconcile opns ps w =
     (case converge opns ps
             (w\<lparr>logs := logs w @ [Reconciling (ps_namespace opns ps) (meta_name (ps_metadata ps))]\<rparr>) of
        (Inl e, w1) \<Rightarrow>
          updateStatus opns ps ''Failed''
            (w1\<lparr>logs := logs w1 @
               [ErrorReconciling (ps_namespace opns ps) (meta_name (ps_metadata ps)) e]\<rparr>)
      | (Inr u, w1) \<Rightarrow>
          (Inr (), (snd (updateStatus opns ps ''Running'' w1))
              \<lparr>logs := logs (snd (updateStatus opns ps ''Running'' w1)) @
                        [SuccessfullyReconciled (ps_namespace opns ps) (meta_name (ps_metadata ps))]\<rparr>))
   \<and> fst (reconcile opns ps w) = Inr ()
   \<and> fst (updateStatus opns ps ph v) = Inr ()
   \<and> (last (logs (snd (updateStatus opns ps ph v))) =
          UpdatedStatus (ps_namespace opns ps) (meta_name (ps_metadata ps))
        \<or> peeringServers (snd (updateStatus opns ps ph v)) = peeringServers v
          \<and> (\<exists>e. last (logs (snd (updateStatus opns ps ph v))) =
                   ErrorUpdatingStatus (ps_namespace opns ps) (meta_name (ps_metadata ps)) e))
   \<and> (served 2 v
        \<and> statefulSets v (ps_namespace opns ps, meta_name (ps_metadata ps)) = Some sts
        \<and> map_of (peeringServers v) (ps_namespace opns ps, meta_name (ps_metadata ps)) = Some p0
        \<longrightarrow> phase_of (snd (updateStatus opns ps ph v))
              (ps_namespace opns ps, meta_name (ps_metadata ps)) = Some ph)"
proof -
  have 1: "reconcile opns ps w =
     (case converge opns ps
             (w\<lparr>logs := logs w @ [Reconciling (ps_namespace opns ps) (meta_name (ps_metadata ps))]\<rparr>) of
        (Inl e, w1) \<Rightarrow>
          updateStatus opns ps ''Failed''
            (w1\<lparr>logs := logs w1 @
               [ErrorReconciling (ps_namespace opns ps) (meta_name (ps_metadata ps)) e]\<rparr>)
      | (Inr u, w1) \<Rightarrow>
          (Inr (), (snd (updateStatus opns ps ''Running'' w1))
              \<lparr>logs := logs (snd (updateStatus opns ps ''Running'' w1)) @
                        [SuccessfullyReconciled (ps_namespace opns ps) (meta_name (ps_metadata ps))]\<rparr>))"
    using reconcile_on_error[of opns ps w] reconcile_on_success[of opns ps w]
    by (simp split: prod.splits sum.splits)
  have 4: "served 2 v
        \<and> statefulSets v (ps_namespace opns ps, meta_name (ps_metadata ps)) = Some sts
        \<and> map_of (peeringServers v) (ps_namespace opns ps, meta_name (ps_metadata ps)) = Some p0
        \<longrightarrow> phase_of (snd (updateStatus opns ps ph v))
              (ps_namespace opns ps, meta_name (ps_metadata ps)) = Some ph"
    using updateStatus_patches[of v opns ps sts p0 ph]
    by (simp add: phase_of_def written_status_def Let_def)
  show ?thesis
    using 1 4 updateStatus_returns[of opns ps ph v] updateStatus_logged[of opns ps ph v]
      reconcile_returns[of opns ps w]
    by blast
qed

text \<open>The lemma at the conflict of C5, where the status update goes through.\<close>

lemma reconcile_error_handling_example:
  "served 2 (running_world\<lparr>logs := [ErrorReconciling ''default'' ''small'' (HttpError 409)]\<rparr>)
   \<and> statefulSets (running_world\<lparr>logs := [ErrorReconciling ''default'' ''small'' (HttpError 409)]\<rparr>)
         (''default'', ''small'') =
       Some ((createStatefulSet ''default'' example_ps)
              \<lparr>sts_status := Some \<lparr>observed_replicas = Some 3, observed_readyReplicas = Some 3\<rparr>\<rparr>)
   \<and> map_of (peeringServers (running_world\<lparr>logs := [ErrorReconciling ''default'' ''small'' (HttpError 409)]\<rparr>))
         (''default'', ''small'') =
       Some (example_ps\<lparr>ps_status := Some \<lparr>status_replicas = 3, status_readyReplicas = 3,
                                           phase = ''Running'', lastUpdated = 0\<rparr>\<rparr>)
   \<and> fst (updateStatus ''default'' example_ps ''Failed''
              (running_world\<lparr>logs := [ErrorReconciling ''default'' ''small'' (HttpError 409)]\<rparr>)) = Inr ()
   \<and> phase_of (snd (updateStatus ''default'' example_ps ''Failed''
              (running_world\<lparr>logs := [ErrorReconciling ''default'' ''small'' (HttpError 409)]\<rparr>)))
         (''default'', ''small'') = Some ''Failed''"
proof -
  let ?v = "running_world\<lparr>logs := [ErrorReconciling ''default'' ''small'' (HttpError 409)]\<rparr>"
  have s: "served 2 ?v" by (simp add: served_def running_world_def example_world_def empty_world_def)
  have sts: "statefulSets ?v (ps_namespace ''default'' example_ps, meta_name (ps_metadata example_ps)) =
       Some ((createStatefulSet ''default'' example_ps)
              \<lparr>sts_status := Some \<lparr>observed_replicas = Some 3, observed_readyReplicas = Some 3\<rparr>\<rparr>)"
    by (simp add: example_facts running_facts)
  have p: "map_of (peeringServers ?v) (ps_namespace ''default'' example_ps, meta_name (ps_metadata example_ps)) =
       Some (example_ps\<lparr>ps_status := Some \<lparr>status_replicas = 3, status_readyReplicas = 3,
                                           phase = ''Running'', lastUpdated = 0\<rparr>\<rparr>)"
    by (simp add: example_facts running_facts)
  show ?thesis
    using s sts p
      reconcile_error_handling[of "''default''" example_ps running_world "''Failed''" ?v
        "(createStatefulSet ''default'' example_ps)
              \<lparr>sts_status := Some \<lparr>observed_replicas = Some 3, observed_readyReplicas = Some 3\<rparr>\<rparr>"
        "example_ps\<lparr>ps_status := Some \<lparr>status_replicas = 3, status_readyReplicas = 3,
                                           phase = ''Running'', lastUpdated = 0\<rparr>\<rparr>"]
    by (simp add: example_facts)
qed

text \<open>
  C6. On any error while converging the owned objects, the status is to be patched with
  phase \<open>Failed\<close>. The \<open>catch\<close> of \<open>reconcile\<close> does call the status update with
  \<open>Failed\<close>, but the status update reads the StatefulSet before it patches and gives up
  on any error of its own. Take the new PeeringServer \<open>small\<close> on a store that holds
  nothing else, and let the creation of its ConfigMap be refused (403). Converging throws;
  the status update's read of the StatefulSet, which does not exist yet, is answered 404,
  and that is only logged. No patch is sent: the calls of the reconcile are the read and
  the create of the ConfigMap and the read of the StatefulSet, and the PeeringServer, which
  is in the store, has no phase afterwards.
\<close>

theorem failed_phase_is_never_patched:
  "fst (converge ''default'' example_ps
          (forbidden_world\<lparr>logs := logs forbidden_world @ [Reconciling ''default'' ''small'']\<rparr>)) =
     Inl (HttpError 403)
   \<and> calls (snd (reconcile ''default'' example_ps forbidden_world)) =
       [ReadConfigMap ''default'' ''small-config'', CreateConfigMap ''default'' ''small-config'',
        ReadStatefulSet ''default'' ''small'']
   \<and> map_of (peeringServers forbidden_world) (''default'', ''small'') = Some example_ps
   \<and> logs (snd (reconcile ''default'' example_ps forbidden_world)) =
       [Reconciling ''default'' ''small'', ErrorReconciling ''default'' ''small'' (HttpError 403),
        ErrorUpdatingStatus ''default'' ''small'' (HttpError 404)]
   \<and> phase_of (snd (reconcile ''default'' example_ps forbidden_world)) (''default'', ''small'') = None"
  unfolding reconcile_forbidden
  by (simp add: converge_def createOrUpdateConfigMap_def Let_def
      example_facts and_then_def try_catch_def readNamespacedConfigMap_def
      createNamespacedConfigMap_def request_def logger_def
      forbidden_world_def example_world_def empty_world_def throw_def phase_of_def)
    (simp add: example_ps_def)

subsection \<open>C7: configuration problems\<close>

text \<open>
  The problems that \<open>loadConfig\<close> survives. When the file does not parse,
  \<open>loadConfig\<close>, at startup or called by the file watcher for a reload, returns normally
  and leaves the whole state as it was (the config, the timer, the process) but for the
  log, which gets the error; so it does when the file parses to a value whose
  \<open>peers.length\<close> cannot be read (\<open>null\<close>, or an object without \<open>peers\<close>). When the
  file is absent at startup, the constructor returns normally with the built-in defaults,
  \<open>peers = []\<close> and \<open>pingInterval = 60000\<close>, and the process goes on. \<open>parse\<close> stands
  for \<open>JSON.parse\<close>.
\<close>

lemma survived_config_problems:
  assumes "parse configData = None \<and> e = SyntaxError
           \<or> (\<exists>v c. parse configData = Some v \<and> member2 (config s) ''peers'' ''length'' = Inr c
                   \<and> member2 v ''peers'' ''length'' = Inl e)"
  shows "loadConfig parse (s\<lparr>on_disk := Contents configData\<rparr>) =
           (Inr (), s\<lparr>on_disk := Contents configData,
                     server_logs := server_logs s @ [ErrorLoadingConfig e]\<rparr>)"
    and "config_changed parse (Contents configData) s =
           (Inr (), s\<lparr>on_disk := Contents configData,
                     server_logs := server_logs s @
                       (if configWatcher s
                        then [ConfigChanged (configPath s), ErrorLoadingConfig e]
                        else [])\<rparr>)"
    and "new_server parse p path pod hostname Missing =
           (Inr (),
            \<lparr>listen_port = p, serverName = server_name pod hostname p, configPath = path,
             config = JObj [(''peers'', JArr []), (''pingInterval'', JNum 60000)],
             pingIntervalId = None, configWatcher = True, timers = [], next_handle = 0,
             inflight = [], rejections = [],
             server_logs = [ConfigNotFound path, WatchingConfig path],
             on_disk = Missing, exit_status = None\<rparr>)"
proof -
  have load: "loadConfig parse (s\<lparr>on_disk := Contents configData, server_logs := ls\<rparr>) =
           (Inr (), s\<lparr>on_disk := Contents configData, server_logs := ls @ [ErrorLoadingConfig e]\<rparr>)" for ls
    using assms
    by (auto simp: loadConfig_def try_catch_def log_line_def and_then_def evaluate_def)
  show "loadConfig parse (s\<lparr>on_disk := Contents configData\<rparr>) =
           (Inr (), s\<lparr>on_disk := Contents configData,
                     server_logs := server_logs s @ [ErrorLoadingConfig e]\<rparr>)"
    using load[of "server_logs s"] by simp
  show "config_changed parse (Contents configData) s =
           (Inr (), s\<lparr>on_disk := Contents configData,
                     server_logs := server_logs s @
                       (if configWatcher s
                        then [ConfigChanged (configPath s), ErrorLoadingConfig e]
                        else [])\<rparr>)"
    using load[of "server_logs s @ [ConfigChanged (configPath s)]"]
    by (simp add: config_changed_def and_then_def log_line_def)
  show "new_server parse p path pod hostname Missing =
           (Inr (),
            \<lparr>listen_port = p, serverName = server_name pod hostname p, configPath = path,
             config = JObj [(''peers'', JArr []), (''pingInterval'', JNum 60000)],
             pingIntervalId = None, configWatcher = True, timers = [], next_handle = 0,
             inflight = [], rejections = [],
             server_logs = [ConfigNotFound path, WatchingConfig path],
             on_disk = Missing, exit_status = None\<rparr>)"
    by (rule new_server_missing)
qed

text \<open>A reload of the example server when the file holds only an opening brace.\<close>

lemma survived_config_problems_example:
  "example_parse ''{'' = None
   \<and> fst (config_changed example_parse (Contents ''{'') example_server) = Inr ()
   \<and> config (snd (config_changed example_parse (Contents ''{'') example_server)) = example_config
   \<and> timers (snd (config_changed example_parse (Contents ''{'') example_server)) =
       [(3, Some (JNum 1000))]
   \<and> exit_status (snd (config_changed example_parse (Contents ''{'') example_server)) = None
   \<and> rejections (snd (config_changed example_parse (Contents ''{'') example_server)) = []
   \<and> server_logs (snd (config_changed example_parse (Contents ''{'') example_server)) =
       server_logs example_server @
       [ConfigChanged ''/etc/peering/config.json'', ErrorLoadingConfig SyntaxError]"
  using survived_config_problems(2)[where parse = example_parse and s = example_server
      and configData = "''{''" and e = SyntaxError]
  by (simp add: example_server_fields example_parse_facts(2))

text \<open>
  C7. The server is to survive every configuration problem: to log it, keep the config it
  had and go on. It does not when the file holds well-formed JSON whose \<open>peers\<close> is not
  an array. Take the example server, running with its three peers, and let the file change
  to \<open>{"peers": 5}\<close>. \<open>JSON.parse\<close> accepts the text and \<open>newConfig.peers.length\<close>
  is \<open>undefined\<close>, so nothing is thrown inside the \<open>try\<close> of \<open>loadConfig\<close>: the
  config of before is replaced, the timer of before is cleared, and \<open>startPinging\<close> calls
  \<open>pingAllPeers\<close>, which throws a TypeError at \<open>this.config.peers.map\<close>. The promise
  of \<open>pingAllPeers\<close> is rejected and nothing handles it: the process ends with status 1,
  and handles no event after that. The same file at startup ends the process as well.
\<close>

theorem misshapen_config_ends_the_process:
  "shape_parse misshapen_text = Some (JObj [(''peers'', JNum 5)])
   \<and> exit_status example_server = None
   \<and> config example_server = example_config
   \<and> fst (config_changed shape_parse (Contents misshapen_text) example_server) = Inr ()
   \<and> config (snd (config_changed shape_parse (Contents misshapen_text) example_server)) =
       JObj [(''peers'', JNum 5)]
   \<and> timers (snd (config_changed shape_parse (Contents misshapen_text) example_server)) =
       [(4, None)]
   \<and> rejections (snd (config_changed shape_parse (Contents misshapen_text) example_server)) =
       [TypeError]
   \<and> exit_status (snd (config_changed shape_parse (Contents misshapen_text) example_server)) =
       Some 1
   \<and> server_logs (snd (config_changed shape_parse (Contents misshapen_text) example_server)) =
       server_logs example_server @
       [ConfigChanged ''/etc/peering/config.json'', ConfigLoaded ''/etc/peering/config.json'',
        PeersUpdated (Some (JNum 3)) None, PingIntervalMs None, PingingPeers None,
        PingIntervalSet None]
   \<and> run shape_parse
         [FileChanged (Contents misshapen_text),
          FileChanged (Contents (JSON_stringify example_config)), TimerFired 4]
         example_server =
       snd (config_changed shape_parse (Contents misshapen_text) example_server)
   \<and> exit_status (snd (new_server shape_parse 8080 ''/etc/peering/config.json''
                          (Some ''small-0'') None (Contents misshapen_text))) = Some 1"
proof -
  have parse: "shape_parse misshapen_text = Some (JObj [(''peers'', JNum 5)])"
    by (simp add: shape_parse_def)
  have reload: "config_changed shape_parse (Contents misshapen_text) example_server =
      (Inr (), example_server
         \<lparr>config := JObj [(''peers'', JNum 5)], pingIntervalId := Some 4,
          timers := [(4, None)], next_handle := 5, rejections := [TypeError],
          server_logs := server_logs example_server @
            [ConfigChanged ''/etc/peering/config.json'',
             ConfigLoaded ''/etc/peering/config.json'',
             PeersUpdated (Some (JNum 3)) None, PingIntervalMs None, PingingPeers None,
             PingIntervalSet None],
          on_disk := Contents misshapen_text, exit_status := Some 1\<rparr>)"
    by (simp add: config_changed_def example_server_fields and_then_def log_line_def
        loadConfig_def try_catch_def parse evaluate_def member2_def example_config_peers
        startPinging_def clearInterval_def pingAllPeers_def pingAllPeers_body_def throw_def
        setInterval_def example_peers)
  have start: "exit_status (snd (new_server shape_parse 8080 ''/etc/peering/config.json''
                          (Some ''small-0'') None (Contents misshapen_text))) = Some 1"
    by (simp add: new_server_def and_then_def log_line_def default_config_def
        loadConfig_def try_catch_def parse evaluate_def member2_def startPinging_def
        clearInterval_def pingAllPeers_def pingAllPeers_body_def throw_def setInterval_def
        watchConfig_def)
  show ?thesis
    using parse start
    by (simp add: reload example_server_fields server_step_def)
qed

subsection \<open>C8: the pings of a tick\<close>

text \<open>
  C8 says that all outcomes of a tick are observed before the next tick is scheduled. The
  schedule is an interval timer: \<open>startPinging\<close> sets it right after the first pings are
  sent, and its callback calls \<open>pingAllPeers\<close> without waiting for anything. In the
  example server (ping interval one second, requests time out after five) the timer is set
  while the three requests of the first tick are in flight, and when it fires three more
  are sent while these are still in flight.
\<close>

theorem tick_overlap_counterexample:
  "timers example_server = [(3, Some (JNum 1000))]
   \<and> map req_id (inflight example_server) = [0, 1, 2]
   \<and> map req_timeout (inflight example_server) = [5000, 5000, 5000]
   \<and> map req_id (inflight (timer_fired 3 example_server)) = [0, 1, 2, 4, 5, 6]"
proof -
  have cfg: "get_prop example_config ''peers'' = Inr (Some (JArr (map peer_json (desired_peers ''default'' example_ps))))"
    "member2 example_config ''peers'' ''length'' = Inr (Some (JNum 3))"
    by (simp_all add: example_config_def config_json_def member2_def example_peers)
  have addr: "peer_address (peer_json pr) = Inr (host pr @ '':'' @ show_int (port pr))" for pr
    by (simp add: peer_address_def peer_json_def template_def)
  let ?s1 = "example_server\<lparr>server_logs := server_logs example_server @ [PingingPeers (Some (JNum 3))]\<rparr>"
  have "pingAllPeers example_server = fold pingPeer (map peer_json (desired_peers ''default'' example_ps)) ?s1"
    by (simp add: pingAllPeers_def pingAllPeers_body_def and_then_def evaluate_def log_line_def
        example_server_fields(1) cfg)
  then have "map req_id (inflight (pingAllPeers example_server)) = [0, 1, 2, 4, 5, 6]"
    by (simp add: example_peers pingPeer_def addr example_server_fields)
  then show ?thesis
    by (simp add: timer_fired_def example_server_fields)
qed

text \<open>
  C8 as amended. On every tick the server sends a request to every configured peer at
  once, before any outcome is known, so the failure of one peer neither prevents nor
  cancels the ping of another; no aggregate failure arises. Whatever the outcome of a
  request, settling it removes that request alone and leaves the timer set. The ticks come
  from a timer of fixed period that does not wait for outcomes: a tick sends its requests
  also when requests of earlier ticks are still in flight.
\<close>

theorem ticks_are_independent:
  assumes "get_prop (config s) ''peers'' = Inr (Some (JArr ps))"
    and "t \<in> fst ` set (timers s)"
  shows "map req_address (inflight (timer_fired t s)) = map req_address (inflight s) @ sent_to ps
       \<and> rejections (timer_fired t s) = rejections s
       \<and> timers (timer_fired t s) = timers s
       \<and> inflight (settle rid out (timer_fired t s)) =
           filter (\<lambda>r. req_id r \<noteq> rid) (inflight (timer_fired t s))
       \<and> timers (settle rid out (timer_fired t s)) = timers s
       \<and> rejections (settle rid out (timer_fired t s)) = rejections s"
  using pingAllPeers_array[OF assms(1)] assms(2)
  by (simp add: timer_fired_def settle_frame pingAllPeers_frame)

text \<open>
  The theorem for the example server: its timer fires while the three requests of the
  first tick are in flight, and the request to the second peer is then refused.
\<close>

theorem ticks_are_independent_witness:
  "get_prop (config example_server) ''peers'' =
     Inr (Some (JArr (map peer_json (desired_peers ''default'' example_ps))))
   \<and> 3 \<in> fst ` set (timers example_server)
   \<and> map req_address (inflight (timer_fired 3 example_server)) =
       map req_address (inflight example_server) @
       [''small-0.small-headless.default.svc.cluster.local:8080'',
        ''small-1.small-headless.default.svc.cluster.local:8080'',
        ''small-2.small-headless.default.svc.cluster.local:8080'']
   \<and> inflight (settle 1 (Failure (Some ''ECONNREFUSED'')) (timer_fired 3 example_server)) =
       filter (\<lambda>r. req_id r \<noteq> 1) (inflight (timer_fired 3 example_server))
   \<and> timers (settle 1 (Failure (Some ''ECONNREFUSED'')) (timer_fired 3 example_server)) =
       [(3, Some (JNum 1000))]"
proof -
  have h1: "get_prop (config example_server) ''peers'' =
     Inr (Some (JArr (map peer_json (desired_peers ''default'' example_ps))))"
    by (simp add: example_server_fields example_config_peers)
  have h2: "3 \<in> fst ` set (timers example_server)"
    by (simp add: example_server_fields)
  have num: "show_int 8080 = ''8080''"
    by (simp add: show_int_def show_nat.simps digit_char_def)
  have sent: "sent_to (map peer_json (desired_peers ''default'' example_ps)) =
       [''small-0.small-headless.default.svc.cluster.local:8080'',
        ''small-1.small-headless.default.svc.cluster.local:8080'',
        ''small-2.small-headless.default.svc.cluster.local:8080'']"
    unfolding sent_to_peer_json by (simp add: example_peers num)
  show ?thesis
    using h1 h2 ticks_are_independent[OF h1 h2, of 1 "Failure (Some ''ECONNREFUSED'')"]
    by (simp add: sent example_server_fields)
qed

subsection \<open>C9: after a watch failure\<close>

text \<open>
  C9 says that after a watch failure the engine waits and then lists all PeeringServers
  again before it re-opens the watch. The loop of \<open>start\<close> only sleeps and calls
  \<open>watch\<close> again; \<open>syncExistingResources\<close> is called once, before the loop. With a
  first watch that throws, on an empty store:
\<close>

theorem no_relist_counterexample:
  "calls (snd (start ''default'' [crashed_session, quiet_session] empty_world)) =
     [ListPeeringServers ''default'',
      OpenWatch ''/apis/luxor.io/v1/namespaces/default/peeringservers'',
      Sleep 5000,
      OpenWatch ''/apis/luxor.io/v1/namespaces/default/peeringservers'']"
  by (simp add: start_def syncExistingResources_def listNamespacedCustomObject_def watch_def
      sleep_def request_def logger_def and_then_def try_catch_def return_def throw_def Let_def
      empty_world_def crashed_session_def quiet_session_def)

text \<open>
  C9 as amended. The Watch Engine lists the PeeringServers exactly once, at startup before
  the first watch. After a call of \<open>watch\<close> that throws it sleeps 5 seconds, the same
  every time, and opens the watch again; after one that returns it opens the watch again at
  once. No list is made after a failure. In the calls of the engine itself (those of the
  reconciles left out):
\<close>

theorem watch_engine_calls:
  "engine_trace (snd (start opns sessions w)) =
     engine_trace w @ ListPeeringServers opns
       # concat (map (\<lambda>session.
                        OpenWatch (''/apis/luxor.io/v1/namespaces/'' @ opns @ ''/peeringservers'')
                        # (case ended session of
                             WatchReturned \<Rightarrow> []
                           | WatchThrew e \<Rightarrow> [Sleep 5000]))
                 sessions)"
proof -
  let ?w0 = "w\<lparr>logs := logs w @ [OperatorStarting opns]\<rparr>"
  let ?path = "''/apis/luxor.io/v1/namespaces/'' @ opns @ ''/peeringservers''"
  obtain r w1 where sy: "syncExistingResources opns ?w0 = (r, w1)"
    by (cases "syncExistingResources opns ?w0")
  have t1: "engine_trace w1 = engine_trace w @ [ListPeeringServers opns]"
    using sync_trace[of opns ?w0] sy by (simp add: engine_trace_def)
  let ?w2 = "w1\<lparr>logs := logs w1 @ [WatchPath ?path, StartingWatch]\<rparr>"
  have t2: "engine_trace (snd (watch_loop opns ?path sessions ?w2)) =
      engine_trace w @ ListPeeringServers opns # concat (map (session_calls ?path) sessions)"
    using watch_loop_trace[of opns ?path sessions ?w2] t1 by (simp add: engine_trace_def)
  have r: "r = Inr ()"
    using sy
    by (auto simp: syncExistingResources_def and_then_def try_catch_def logger_def
        split: prod.splits sum.splits)
  have "start opns sessions w = watch_loop opns ?path sessions ?w2"
    using sy r by (simp add: start_def and_then_def logger_def Let_def)
  then show ?thesis
    using t2 by (simp add: session_calls_def[abs_def])
qed


subsection \<open>C10: when the ping timer exists\<close>

text \<open>
  C10. As long as every change of the file leaves it absent, unreadable or unparsable,
  whatever else happens (timers firing, requests settling), the timers that are set and the
  server's timer handle stay what they were: a timer is set only by a load that succeeds,
  and a failed reload leaves the timer of before running with its interval. A server
  started without a file has no timer, and sends no ping until a load succeeds, although
  it holds the default config.
\<close>

theorem ping_timer_needs_a_load:
  assumes "list_all (no_load parse) evs"
  shows "timers (run parse evs s) = timers s
       \<and> pingIntervalId (run parse evs s) = pingIntervalId s
       \<and> pingIntervalId (snd (new_server parse p path pod hostname Missing)) = None
       \<and> timers (run parse evs (snd (new_server parse p path pod hostname Missing))) = []
       \<and> inflight (run parse evs (snd (new_server parse p path pod hostname Missing))) = []"
  using run_no_load[OF assms] by (simp add: new_server_missing)

text \<open>
  The example server, which has a timer of one second, and a server started without a
  file, through a timer event, two bad reloads and a settled request.
\<close>

theorem ping_timer_needs_a_load_witness:
  "list_all (no_load example_parse)
     [TimerFired 3, FileChanged (Contents ''{''), FileChanged Missing, Settled 0 (Failure None)]
   \<and> timers (run example_parse
        [TimerFired 3, FileChanged (Contents ''{''), FileChanged Missing, Settled 0 (Failure None)]
        example_server) = [(3, Some (JNum 1000))]
   \<and> pingIntervalId (run example_parse
        [TimerFired 3, FileChanged (Contents ''{''), FileChanged Missing, Settled 0 (Failure None)]
        example_server) = Some 3
   \<and> inflight (run example_parse
        [TimerFired 3, FileChanged (Contents ''{''), FileChanged Missing, Settled 0 (Failure None)]
        (snd (new_server example_parse 8080 ''/etc/peering/config.json'' (Some ''small-0'') None
                Missing))) = []"
proof -
  have h: "list_all (no_load example_parse)
     [TimerFired 3, FileChanged (Contents ''{''), FileChanged Missing, Settled 0 (Failure None)]"
    by (simp add: no_load_def unloadable_def example_parse_facts)
  show ?thesis
    using h ping_timer_needs_a_load[OF h, where s = example_server and p = 8080
        and path = "''/etc/peering/config.json''" and pod = "Some ''small-0''" and hostname = None]
    by (simp add: example_server_fields)
qed

end
